theory Spec2Isabelle
  imports Complex_Main "HOL-Library.Word"
begin

section \<open>Values of the host language\<close>

text \<open>
  The gateway is a TypeScript module (\<^verbatim>\<open>src/index.ts\<close>). A string of the host
  language is a sequence of UTF-16 code units and its \<^verbatim>\<open>length\<close> counts them,
  so a string is a list of 16-bit words. \<open>js\<close> turns an ASCII literal into one.
\<close>

type_synonym jsstring = "16 word list"

definition js :: "string \<Rightarrow> jsstring" where
  "js s = map of_char s"

text \<open>
  \<^verbatim>\<open>String.prototype.trim\<close> removes white space and line terminators from both
  ends. All of them are single code units.
\<close>

definition is_ws :: "16 word \<Rightarrow> bool" where
  "is_ws c =
     (c \<in> set [0x09, 0x0A, 0x0B, 0x0C, 0x0D, 0x20, 0xA0, 0x1680,
                0x2028, 0x2029, 0x202F, 0x205F, 0x3000, 0xFEFF]
      \<or> (0x2000 \<le> c \<and> c \<le> 0x200A))"

definition trim :: "jsstring \<Rightarrow> jsstring" where
  "trim s = rev (dropWhile is_ws (rev (dropWhile is_ws s)))"

text \<open>
  Thrown values. The runtime and the D1 binding throw \<^verbatim>\<open>Error\<close> instances; the
  model keeps the constructor's name and the message. \<open>to_string\<close> is
  \<^verbatim>\<open>Error.prototype.toString\<close>, which a template literal \<^verbatim>\<open>`${err}`\<close> calls.
\<close>

datatype js_error = Error jsstring | TypeError jsstring

fun error_name :: "js_error \<Rightarrow> jsstring" where
  "error_name (Error m) = js ''Error''"
| "error_name (TypeError m) = js ''TypeError''"

fun error_message :: "js_error \<Rightarrow> jsstring" where
  "error_message (Error m) = m"
| "error_message (TypeError m) = m"

definition to_string :: "js_error \<Rightarrow> jsstring" where
  "to_string e =
     (if error_message e = [] then error_name e
      else error_name e @ js '': '' @ error_message e)"

text \<open>
  Numbers are kept as rationals together with \<^verbatim>\<open>NaN\<close>; the gateway never
  computes with them, it only tests them for truthiness and passes them on.
\<close>

datatype number = Finite rat | NaN

datatype jsval =
    JUndefined
  | JNull
  | JBool bool
  | JNum number
  | JStr jsstring
  | JArr "jsval list"
  | JObj "(jsstring \<times> jsval) list"
  | JErr js_error

fun truthy :: "jsval \<Rightarrow> bool" where
  "truthy JUndefined = False"
| "truthy JNull = False"
| "truthy (JBool b) = b"
| "truthy (JNum (Finite r)) = (r \<noteq> 0)"
| "truthy (JNum NaN) = False"
| "truthy (JStr s) = (s \<noteq> [])"
| "truthy (JArr xs) = True"
| "truthy (JObj kvs) = True"
| "truthy (JErr e) = True"

text \<open>
  Reading a property. An object is the list of its properties, each name once
  (a parsed JSON object has no duplicate names). \<open>field\<close> is the read on a
  value that is neither
  \<^verbatim>\<open>null\<close> nor \<^verbatim>\<open>undefined\<close>: an object gives the stored value or
  \<^verbatim>\<open>undefined\<close>. The gateway only reads the names \<^verbatim>\<open>queryText\<close>,
  \<^verbatim>\<open>params\<close>, \<^verbatim>\<open>batch\<close>, \<^verbatim>\<open>results\<close>, \<^verbatim>\<open>error\<close>,
  \<^verbatim>\<open>meta\<close>, \<^verbatim>\<open>count\<close> and \<^verbatim>\<open>duration\<close>, none of which is a built-in
  property of a primitive, an array or an \<^verbatim>\<open>Error\<close>, so those give
  \<^verbatim>\<open>undefined\<close>. \<open>read_prop\<close> is \<^verbatim>\<open>v.p\<close>, which throws on \<^verbatim>\<open>null\<close> and
  \<^verbatim>\<open>undefined\<close>; \<open>opt_prop\<close> is \<^verbatim>\<open>v?.p\<close>.
\<close>

definition field :: "jsval \<Rightarrow> jsstring \<Rightarrow> jsval" where
  "field v p =
     (case v of
        JObj kvs \<Rightarrow> (case map_of kvs p of Some x \<Rightarrow> x | None \<Rightarrow> JUndefined)
      | _ \<Rightarrow> JUndefined)"

definition cannot_read :: "jsstring \<Rightarrow> jsstring \<Rightarrow> js_error" where
  "cannot_read what p =
     TypeError (js ''Cannot read properties of '' @ what @ js '' (reading ''
                @ [0x27] @ p @ [0x27] @ js '')'')"

definition read_prop :: "jsval \<Rightarrow> jsstring \<Rightarrow> js_error + jsval" where
  "read_prop v p =
     (case v of
        JUndefined \<Rightarrow> Inl (cannot_read (js ''undefined'') p)
      | JNull \<Rightarrow> Inl (cannot_read (js ''null'') p)
      | _ \<Rightarrow> Inr (field v p))"

definition opt_prop :: "jsval \<Rightarrow> jsstring \<Rightarrow> jsval" where
  "opt_prop v p =
     (case v of
        JUndefined \<Rightarrow> JUndefined
      | JNull \<Rightarrow> JUndefined
      | _ \<Rightarrow> field v p)"

definition is_string :: "jsval \<Rightarrow> bool" where
  "is_string v = (case v of JStr s \<Rightarrow> True | _ \<Rightarrow> False)"

definition is_number :: "jsval \<Rightarrow> bool" where
  "is_number v = (case v of JNum n \<Rightarrow> True | _ \<Rightarrow> False)"

text \<open>The scalars of the specification: string, number, boolean, null.\<close>

definition scalar :: "jsval \<Rightarrow> bool" where
  "scalar v =
     (case v of
        JStr s \<Rightarrow> True | JNum n \<Rightarrow> True | JBool b \<Rightarrow> True | JNull \<Rightarrow> True
      | _ \<Rightarrow> False)"

section \<open>Request schemas\<close>

text \<open>
  The schemas are built from the combinators of the validation library (zod,
  imported at line 5). A schema is a function from the parsed JSON value to the
  validated output, \<open>None\<close> when the value is rejected. The checks chained on
  \<^verbatim>\<open>z.string()\<close> are kept as the list the source chains them in and run in
  that order, each on the value the previous ones left; \<^verbatim>\<open>trim\<close> is a member
  of the chain that replaces the value. (The library records an issue and goes
  on where this model stops; the input is rejected either way.)
\<close>

datatype string_check = Min nat | Max nat | Trim

fun run_checks :: "string_check list \<Rightarrow> jsstring \<Rightarrow> jsstring option" where
  "run_checks [] s = Some s"
| "run_checks (Min n # cs) s = (if length s < n then None else run_checks cs s)"
| "run_checks (Max n # cs) s = (if n < length s then None else run_checks cs s)"
| "run_checks (Trim # cs) s = run_checks cs (trim s)"

definition z_string :: "string_check list \<Rightarrow> jsval \<Rightarrow> jsstring option" where
  "z_string cs v = (case v of JStr s \<Rightarrow> run_checks cs s | _ \<Rightarrow> None)"

definition z_any :: "jsval \<Rightarrow> jsval option" where
  "z_any v = Some v"

definition z_array :: "(jsval \<Rightarrow> 'a option) \<Rightarrow> jsval \<Rightarrow> 'a list option" where
  "z_array elem v = (case v of JArr xs \<Rightarrow> those (map elem xs) | _ \<Rightarrow> None)"

definition z_optional :: "(jsval \<Rightarrow> 'a option) \<Rightarrow> jsval \<Rightarrow> 'a option option" where
  "z_optional inner v =
     (case v of JUndefined \<Rightarrow> Some None | _ \<Rightarrow> map_option Some (inner v))"

definition z_nonempty :: "(jsval \<Rightarrow> 'a list option) \<Rightarrow> jsval \<Rightarrow> 'a list option" where
  "z_nonempty inner v =
     (case inner v of Some (x # xs) \<Rightarrow> Some (x # xs) | _ \<Rightarrow> None)"

text \<open>
  The validated bodies. \<^verbatim>\<open>PreparedQuery\<close> has the field of \<^verbatim>\<open>ExecQuery\<close>
  and the optional \<^verbatim>\<open>params\<close>. \<^verbatim>\<open>z.object\<close> accepts objects only (an array
  or \<^verbatim>\<open>null\<close> is rejected) and drops the keys the schema does not name.
\<close>

record exec_query =
  queryText :: jsstring

record prepared_query = exec_query +
  params :: "jsval list option"

record batch_query =
  batch :: "prepared_query list"

definition PreparedQuery :: "jsval \<Rightarrow> prepared_query option" where
  "PreparedQuery v =
     (case v of
        JObj kvs \<Rightarrow>
          (case z_string [Min 1, Max 10000, Trim] (field v (js ''queryText'')) of
             None \<Rightarrow> None
           | Some t \<Rightarrow>
               (case z_optional (z_array z_any) (field v (js ''params'')) of
                  None \<Rightarrow> None
                | Some ps \<Rightarrow> Some \<lparr>queryText = t, params = ps\<rparr>))
      | _ \<Rightarrow> None)"

definition ExecQuery :: "jsval \<Rightarrow> exec_query option" where
  "ExecQuery v =
     (case v of
        JObj kvs \<Rightarrow>
          (case z_string [Min 1, Max 1000000, Trim] (field v (js ''queryText'')) of
             None \<Rightarrow> None
           | Some t \<Rightarrow> Some \<lparr>queryText = t\<rparr>)
      | _ \<Rightarrow> None)"

definition BatchQuery :: "jsval \<Rightarrow> batch_query option" where
  "BatchQuery v =
     (case v of
        JObj kvs \<Rightarrow>
          (case z_nonempty (z_array PreparedQuery) (field v (js ''batch'')) of
             None \<Rightarrow> None
           | Some qs \<Rightarrow> Some \<lparr>batch = qs\<rparr>)
      | _ \<Rightarrow> None)"

section \<open>The database binding\<close>

text \<open>
  The D1 binding is an external capability. It is a parameter of the model: a
  record of the five operations the gateway calls, each of which returns a value
  or throws. A prepared statement is a value of the binding's own type \<open>'s\<close>.
  For one request the binding's answers are functions of their arguments.
  Every call the gateway makes is written to a trace, in the order of the calls.
\<close>

record 's D1Database =
  db_prepare :: "jsstring \<Rightarrow> js_error + 's"
  stmt_bind :: "'s \<Rightarrow> jsval list \<Rightarrow> js_error + 's"
  stmt_all :: "'s \<Rightarrow> js_error + jsval"
  db_exec :: "jsstring \<Rightarrow> js_error + jsval"
  db_batch :: "'s list \<Rightarrow> js_error + jsval list"

datatype 's call =
    Prepare jsstring
  | Bind 's "jsval list"
  | All 's
  | Exec jsstring
  | Batch "'s list"

type_synonym ('s, 'a) traced = "(js_error + 'a) \<times> 's call list"

definition ret :: "'a \<Rightarrow> ('s, 'a) traced" where
  "ret a = (Inr a, [])"

definition lift :: "js_error + 'a \<Rightarrow> ('s, 'a) traced" where
  "lift r = (r, [])"

definition invoke :: "'s call \<Rightarrow> js_error + 'a \<Rightarrow> ('s, 'a) traced" where
  "invoke c r = (r, [c])"

definition and_then :: "('s, 'a) traced \<Rightarrow> ('a \<Rightarrow> ('s, 'b) traced) \<Rightarrow> ('s, 'b) traced" where
  "and_then m f =
     (case m of
        (Inl e, tr) \<Rightarrow> (Inl e, tr)
      | (Inr a, tr) \<Rightarrow> (case f a of (r, tr') \<Rightarrow> (r, tr @ tr')))"

section \<open>Responses\<close>

datatype payload = Json jsval | Plain jsstring

record response =
  status :: nat
  payload :: payload

definition c_json :: "jsval \<Rightarrow> nat \<Rightarrow> response" where
  "c_json v st = \<lparr>status = st, payload = Json v\<rparr>"

text \<open>An error body in the sense of the specification: a JSON object whose
  \<^verbatim>\<open>error\<close> member is a string.\<close>

definition error_body :: "payload \<Rightarrow> bool" where
  "error_body p =
     (case p of Json v \<Rightarrow> is_string (field v (js ''error'')) | Plain t \<Rightarrow> False)"

definition non_2xx :: "nat \<Rightarrow> bool" where
  "non_2xx st = (st < 200 \<or> 300 \<le> st)"

section \<open>The three handlers\<close>

text \<open>
  Preparing one query: \<^verbatim>\<open>prepare\<close> on the text and, when \<^verbatim>\<open>params\<close> is
  there (an array is truthy, also an empty one), \<^verbatim>\<open>bind\<close> on its elements.
  The handler of \<^verbatim>\<open>/all/\<close> does this at lines 125 to 128 and the loop of
  \<^verbatim>\<open>/batch/\<close> at lines 178 to 184.
\<close>

definition statement_for :: "'s D1Database \<Rightarrow> prepared_query \<Rightarrow> ('s, 's) traced" where
  "statement_for D query =
     and_then (invoke (Prepare (queryText query)) (db_prepare D (queryText query))) (\<lambda>stmt.
     case params query of
       Some ps \<Rightarrow> invoke (Bind stmt ps) (stmt_bind D stmt ps)
     | None \<Rightarrow> ret stmt)"

text \<open>The body of the \<^verbatim>\<open>try\<close> block of \<^verbatim>\<open>POST /all/\<close> (lines 124 to 134).\<close>

definition all_try :: "'s D1Database \<Rightarrow> prepared_query \<Rightarrow> ('s, jsval) traced" where
  "all_try D query =
     and_then (statement_for D query) (\<lambda>stmt.
     and_then (invoke (All stmt) (stmt_all D stmt)) (\<lambda>result.
     and_then (lift (read_prop result (js ''results''))) (\<lambda>results.
     and_then (lift (read_prop result (js ''meta''))) (\<lambda>meta.
     ret (JObj [(js ''results'', results), (js ''meta'', meta)])))))"

definition post_all :: "'s D1Database \<Rightarrow> prepared_query \<Rightarrow> response \<times> 's call list" where
  "post_all D query =
     (case all_try D query of
        (Inl err, tr) \<Rightarrow>
          (let msg = js ''failed to run query: '' @ to_string err
           in (c_json (JObj [(js ''error'', JStr msg)]) 500, tr))
      | (Inr resp, tr) \<Rightarrow> (c_json resp 200, tr))"

text \<open>\<^verbatim>\<open>POST /exec/\<close> (lines 151 to 170). \<open>or_zero\<close> is \<^verbatim>\<open>v || 0\<close>. The
  \<^verbatim>\<open>catch\<close> branch hands the caught value itself to \<^verbatim>\<open>c.json\<close>.\<close>

definition or_zero :: "jsval \<Rightarrow> jsval" where
  "or_zero v = (if truthy v then v else JNum (Finite 0))"

definition exec_try :: "'s D1Database \<Rightarrow> exec_query \<Rightarrow> ('s, jsval) traced" where
  "exec_try D query =
     and_then (invoke (Exec (queryText query)) (db_exec D (queryText query))) (\<lambda>out.
     ret (JObj [(js ''count'', or_zero (opt_prop out (js ''count''))),
                (js ''durationMs'', or_zero (opt_prop out (js ''duration'')))]))"

definition post_exec :: "'s D1Database \<Rightarrow> exec_query \<Rightarrow> response \<times> 's call list" where
  "post_exec D query =
     (case exec_try D query of
        (Inl err, tr) \<Rightarrow> (c_json (JObj [(js ''error'', JErr err)]) 500, tr)
      | (Inr resp, tr) \<Rightarrow> (c_json resp 200, tr))"

text \<open>\<^verbatim>\<open>POST /batch/\<close> (lines 172 to 204). The first loop prepares (and binds)
  every query and pushes the statement; the second pushes one response object
  per result the binding returned.\<close>

fun prepare_each :: "'s D1Database \<Rightarrow> prepared_query list \<Rightarrow> 's list \<Rightarrow> ('s, 's list) traced" where
  "prepare_each D [] statements = (Inr statements, [])"
| "prepare_each D (query # rest) statements =
     (case statement_for D query of
        (Inl e, tr) \<Rightarrow> (Inl e, tr)
      | (Inr stmt, tr) \<Rightarrow>
          (case prepare_each D rest (statements @ [stmt]) of
             (r, tr') \<Rightarrow> (r, tr @ tr')))"

definition queryResp :: "jsval \<Rightarrow> js_error + jsval" where
  "queryResp result =
     (case read_prop result (js ''results'') of
        Inl e \<Rightarrow> Inl e
      | Inr results \<Rightarrow>
          (case read_prop result (js ''error'') of
             Inl e \<Rightarrow> Inl e
           | Inr err \<Rightarrow>
               (case read_prop result (js ''meta'') of
                  Inl e \<Rightarrow> Inl e
                | Inr meta \<Rightarrow>
                    Inr (JObj [(js ''results'', results), (js ''error'', err),
                               (js ''meta'', meta)]))))"

fun collect_each :: "jsval list \<Rightarrow> jsval list \<Rightarrow> js_error + jsval list" where
  "collect_each [] batchResp = Inr batchResp"
| "collect_each (result # rest) batchResp =
     (case queryResp result of
        Inl e \<Rightarrow> Inl e
      | Inr r \<Rightarrow> collect_each rest (batchResp @ [r]))"

definition batch_try :: "'s D1Database \<Rightarrow> batch_query \<Rightarrow> ('s, jsval list) traced" where
  "batch_try D b =
     and_then (prepare_each D (batch b) []) (\<lambda>statements.
     and_then (invoke (Batch statements) (db_batch D statements)) (\<lambda>batchResults.
     lift (collect_each batchResults [])))"

definition post_batch :: "'s D1Database \<Rightarrow> batch_query \<Rightarrow> response \<times> 's call list" where
  "post_batch D b =
     (case batch_try D b of
        (Inl err, tr) \<Rightarrow>
          (let msg = js ''failed to batch query: '' @ to_string err
           in (c_json (JObj [(js ''error'', JStr msg)]) 500, tr))
      | (Inr batchResp, tr) \<Rightarrow> (c_json (JArr batchResp) 200, tr))"

section \<open>The framework and its middleware\<close>

text \<open>
  Routing, the bearer middleware and the validator middleware come from imported
  packages (lines 1, 2 and 6), not from \<^verbatim>\<open>src/\<close>. What they contribute and the
  source does not fix is a parameter, collected in the record of the application
  instance: the body of the 401 response, the answer to an
  \<^verbatim>\<open>Authorization\<close> header that is not a bearer credential, the body of the 400
  response, the answer to a path without a handler, and the value of
  \<^verbatim>\<open>showRoutes()\<close>. The pretty-printing and logging middleware (lines 97, 98)
  change neither status nor body and are left out.
\<close>

record hono =
  unauthorized :: payload
  not_bearer :: response
  invalid :: "jsval \<Rightarrow> payload"
  not_found :: response
  showRoutes :: jsval

text \<open>
  A request as the router and the body parser hand it over: the route the
  method and path resolve to, the credential in the \<^verbatim>\<open>Authorization\<close> header
  and the parsed JSON body. \<open>QueryOther\<close> is a path of the \<^verbatim>\<open>/query\<close> group
  with no handler (only the group's middleware matches it), \<open>NoRoute\<close> a path
  outside the group with none.
\<close>

datatype route = Root | QueryAll | QueryExec | QueryBatch | QueryOther | NoRoute

datatype credential = NoHeader | NotBearer | Bearer jsstring

record request =
  route :: route
  authorization :: credential
  json :: jsval

text \<open>
  Modelled from the spec: \<^verbatim>\<open>bearerAuth\<close> is imported from
  \<^verbatim>\<open>hono/bearer-auth\<close> and its code is not under \<^verbatim>\<open>src/\<close>. Sections 4.1 and
  4.4 of the specification: a missing header and a token different from the
  configured one are rejected with status 401 before any handler runs. The
  result is the rejection, or \<open>None\<close> when the middleware calls \<^verbatim>\<open>next()\<close>.
\<close>

definition bearerAuth :: "hono \<Rightarrow> jsstring \<Rightarrow> credential \<Rightarrow> response option" where
  "bearerAuth app token cred =
     (case cred of
        NoHeader \<Rightarrow> Some \<lparr>status = 401, payload = unauthorized app\<rparr>
      | NotBearer \<Rightarrow> Some (not_bearer app)
      | Bearer t \<Rightarrow>
          if t = token then None
          else Some \<lparr>status = 401, payload = unauthorized app\<rparr>)"

text \<open>
  Modelled from the spec: \<^verbatim>\<open>zValidator\<close> is imported from
  \<^verbatim>\<open>@hono/zod-validator\<close> and its code is not under \<^verbatim>\<open>src/\<close>. Sections 4.2
  and 4.4 of the specification: a body the route's schema rejects is answered
  with status 400 before the handler runs; otherwise the handler receives the
  schema's output.
\<close>

definition zValidator :: "hono \<Rightarrow> (jsval \<Rightarrow> 'a option) \<Rightarrow> jsval \<Rightarrow> response + 'a" where
  "zValidator app schema v =
     (case schema v of
        None \<Rightarrow> Inl \<lparr>status = 400, payload = invalid app v\<rparr>
      | Some a \<Rightarrow> Inr a)"

section \<open>The gateway\<close>

definition MIN_SECRET_LENGTH :: nat where
  "MIN_SECRET_LENGTH = 16"

record 's d1http =
  db :: "'s D1Database"
  sharedSecret :: jsstring
  honoInstance :: hono

text \<open>
  The constructor of class \<^verbatim>\<open>D1HTTP\<close> (lines 66 to 74). The secret comes from
  the environment, where it may be missing: \<open>None\<close> is \<^verbatim>\<open>undefined\<close>, and
  reading \<^verbatim>\<open>length\<close> of it throws. \<open>fresh\<close> is what \<^verbatim>\<open>new Hono()\<close> gives.
  The message has \<^verbatim>\<open>MIN_SECRET_LENGTH\<close> interpolated.
\<close>

definition D1HTTP_constructor ::
  "hono \<Rightarrow> 's D1Database \<Rightarrow> jsstring option \<Rightarrow> hono option \<Rightarrow> js_error + 's d1http" where
  "D1HTTP_constructor fresh d secret inst =
     (case secret of
        None \<Rightarrow> Inl (cannot_read (js ''undefined'') (js ''length''))
      | Some s \<Rightarrow>
          if length s < MIN_SECRET_LENGTH
          then Inl (Error (js ''sharedSecret not long enough: must be at least 16 bytes long''))
          else Inr \<lparr>db = d, sharedSecret = s,
                    honoInstance = (case inst of Some h \<Rightarrow> h | None \<Rightarrow> fresh)\<rparr>)"

text \<open>
  The routes registered in \<^verbatim>\<open>fetch\<close> (lines 97 to 210) and the dispatch of
  \<^verbatim>\<open>run\<close>. The \<^verbatim>\<open>/query\<close> group runs its bearer middleware first (line 112),
  then the validator of the route, then the handler. The handlers use the
  binding of the environment, \<^verbatim>\<open>c.env.DB\<close>.
\<close>

definition query :: "'s d1http \<Rightarrow> 's D1Database \<Rightarrow> request \<Rightarrow> response \<times> 's call list" where
  "query d1API D req =
     (let app = honoInstance d1API in
      case bearerAuth app (sharedSecret d1API) (authorization req) of
        Some rejected \<Rightarrow> (rejected, [])
      | None \<Rightarrow>
          (case route req of
             QueryAll \<Rightarrow>
               (case zValidator app PreparedQuery (json req) of
                  Inl bad \<Rightarrow> (bad, [])
                | Inr q \<Rightarrow> post_all D q)
           | QueryExec \<Rightarrow>
               (case zValidator app ExecQuery (json req) of
                  Inl bad \<Rightarrow> (bad, [])
                | Inr q \<Rightarrow> post_exec D q)
           | QueryBatch \<Rightarrow>
               (case zValidator app BatchQuery (json req) of
                  Inl bad \<Rightarrow> (bad, [])
                | Inr b \<Rightarrow> post_batch D b)
           | _ \<Rightarrow> (not_found app, [])))"

definition run :: "'s d1http \<Rightarrow> 's D1Database \<Rightarrow> request \<Rightarrow> response \<times> 's call list" where
  "run d1API D req =
     (case route req of
        Root \<Rightarrow> (c_json (showRoutes (honoInstance d1API)) 200, [])
      | NoRoute \<Rightarrow> (not_found (honoInstance d1API), [])
      | _ \<Rightarrow> query d1API D req)"

record 's Env =
  DB :: "'s D1Database option"
  APP_SECRET :: "jsstring option"

definition no_database :: js_error where
  "no_database =
     Error (js ''A D1 database is not connected to the API. Confirm you have a [[d1_database]] binding called ''
            @ [0x27] @ js ''DB'' @ [0x27] @ js '' created.'')"

text \<open>
  The exported \<^verbatim>\<open>fetch\<close> (lines 86 to 212). Its result is the response, or the
  value it throws; a thrown value leaves the module unhandled.
\<close>

definition fetch :: "hono \<Rightarrow> 's Env \<Rightarrow> request \<Rightarrow> (js_error + response) \<times> 's call list" where
  "fetch fresh env req =
     (case DB env of
        None \<Rightarrow> (Inl no_database, [])
      | Some d \<Rightarrow>
          (case D1HTTP_constructor fresh d (APP_SECRET env) None of
             Inl e \<Rightarrow> (Inl e, [])
           | Inr d1API \<Rightarrow>
               (case run d1API d req of (resp, tr) \<Rightarrow> (Inr resp, tr))))"

text \<open>The requests of the \<^verbatim>\<open>/query\<close> group, and the requests the bearer
  middleware turns away for a missing header or a token that is not the secret.\<close>

definition in_query_group :: "request \<Rightarrow> bool" where
  "in_query_group req =
     (route req = QueryAll \<or> route req = QueryExec \<or> route req = QueryBatch
      \<or> route req = QueryOther)"

definition bad_credential :: "jsstring option \<Rightarrow> credential \<Rightarrow> bool" where
  "bad_credential secret cred =
     (case cred of
        NoHeader \<Rightarrow> True
      | NotBearer \<Rightarrow> False
      | Bearer t \<Rightarrow> Some t \<noteq> secret)"

section \<open>A stub binding and sample requests\<close>

text \<open>
  A binding to run the gateway on concrete requests. A statement is the pair of
  its text and its bound parameters. \<^verbatim>\<open>all\<close> and \<^verbatim>\<open>exec\<close> throw on the text
  \<^verbatim>\<open>SELEC 1\<close>; \<^verbatim>\<open>batch\<close> answers every statement with a result that holds
  the statement's own text.
\<close>

definition syntax_error :: js_error where
  "syntax_error = Error (js ''D1_ERROR: syntax error'')"

definition stub_result :: "jsstring \<times> jsval list \<Rightarrow> jsval" where
  "stub_result stmt =
     JObj [(js ''results'', JArr [JStr (fst stmt)]), (js ''success'', JBool True),
           (js ''meta'', JObj [(js ''duration'', JNum (Finite 0))])]"

definition stub_db :: "(jsstring \<times> jsval list) D1Database" where
  "stub_db =
     \<lparr>db_prepare = (\<lambda>t. Inr (t, [])),
      stmt_bind = (\<lambda>stmt ps. Inr (fst stmt, ps)),
      stmt_all = (\<lambda>stmt. if fst stmt = js ''SELEC 1'' then Inl syntax_error
                           else Inr (stub_result stmt)),
      db_exec = (\<lambda>t. if t = js ''SELEC 1'' then Inl syntax_error
                       else Inr (JObj [(js ''count'', JNum (Finite 1)),
                                       (js ''duration'', JNum (Finite 0))])),
      db_batch = (\<lambda>stmts. Inr (map stub_result stmts))\<rparr>"

definition stub_hono :: hono where
  "stub_hono =
     \<lparr>unauthorized = Plain (js ''Unauthorized''),
      not_bearer = \<lparr>status = 400, payload = Plain (js ''Bad Request'')\<rparr>,
      invalid = (\<lambda>v. Json (JObj [(js ''success'', JBool False)])),
      not_found = \<lparr>status = 404, payload = Plain (js ''404 Not Found'')\<rparr>,
      showRoutes = JUndefined\<rparr>"

definition stub_secret :: jsstring where
  "stub_secret = js ''0123456789abcdef''"

definition stub_env :: "(jsstring \<times> jsval list) Env" where
  "stub_env = \<lparr>DB = Some stub_db, APP_SECRET = Some stub_secret\<rparr>"

definition exec_request :: request where
  "exec_request =
     \<lparr>route = QueryExec, authorization = Bearer stub_secret,
      json = JObj [(js ''queryText'', JStr (js ''INSERT INTO users VALUES(1)''))]\<rparr>"

definition failing_request :: "route \<Rightarrow> request" where
  "failing_request r =
     \<lparr>route = r, authorization = Bearer stub_secret,
      json = JObj [(js ''queryText'', JStr (js ''SELEC 1''))]\<rparr>"

definition empty_batch :: "credential \<Rightarrow> request" where
  "empty_batch cred =
     \<lparr>route = QueryBatch, authorization = cred, json = JObj [(js ''batch'', JArr [])]\<rparr>"

definition batch_request :: request where
  "batch_request =
     \<lparr>route = QueryBatch, authorization = Bearer stub_secret,
      json = JObj [(js ''batch'',
               JArr [JObj [(js ''queryText'', JStr (js ''SELECT 1''))],
                     JObj [(js ''queryText'', JStr (js ''SELECT ?'')),
                           (js ''params'', JArr [JNum (Finite 2)])]])]\<rparr>"

text \<open>
  Three variants of the stub binding whose answers are well-formed for the
  gateway but not what the binding documents: \<^verbatim>\<open>batch\<close> returns a single
  result whatever the number of statements, \<^verbatim>\<open>batch\<close> returns \<^verbatim>\<open>null\<close>
  entries, and \<^verbatim>\<open>exec\<close> reports its count as a string.
\<close>

definition short_db :: "(jsstring \<times> jsval list) D1Database" where
  "short_db = stub_db\<lparr>db_batch := (\<lambda>stmts. Inr (take 1 (map stub_result stmts)))\<rparr>"

definition null_db :: "(jsstring \<times> jsval list) D1Database" where
  "null_db = stub_db\<lparr>db_batch := (\<lambda>stmts. Inr (map (\<lambda>stmt. JNull) stmts))\<rparr>"

definition string_count_db :: "(jsstring \<times> jsval list) D1Database" where
  "string_count_db =
     stub_db\<lparr>db_exec := (\<lambda>t. Inr (JObj [(js ''count'', JStr (js ''3'')),
                                           (js ''duration'', JNum (Finite 5))]))\<rparr>"

text \<open>A result of \<^verbatim>\<open>batch\<close> whose properties can be read.\<close>

definition readable :: "jsval \<Rightarrow> bool" where
  "readable r = (case r of JUndefined \<Rightarrow> False | JNull \<Rightarrow> False | _ \<Rightarrow> True)"

section \<open>Facts about the pipeline\<close>

lemma those_map_Some: "those (map f xs) = Some ys \<Longrightarrow> map f xs = map Some ys"
proof (induction xs arbitrary: ys)
  case Nil
  then show ?case by simp
next
  case (Cons x xs)
  then show ?case by (auto split: option.splits)
qed

lemma those_z_any: "those (map z_any xs) = Some xs"
  by (induction xs) (simp_all add: z_any_def)

lemma params_schema:
  "z_optional (z_array z_any) v =
     (case v of JUndefined \<Rightarrow> Some None | JArr xs \<Rightarrow> Some (Some xs) | _ \<Rightarrow> None)"
  by (cases v) (simp_all add: z_optional_def z_array_def those_z_any)

lemma fetch_configured:
  assumes "DB env = Some d" "APP_SECRET env = Some s" "16 \<le> length s"
  shows "fetch F env req =
           (Inr (fst (run \<lparr>db = d, sharedSecret = s, honoInstance = F\<rparr> d req)),
            snd (run \<lparr>db = d, sharedSecret = s, honoInstance = F\<rparr> d req))"
  using assms
  by (simp add: fetch_def D1HTTP_constructor_def MIN_SECRET_LENGTH_def split: prod.splits)

lemma run_in_group: "in_query_group req \<Longrightarrow> run api D req = query api D req"
  by (auto simp: in_query_group_def run_def)

lemma query_rejected:
  "bearerAuth (honoInstance api) (sharedSecret api) (authorization req) = Some r
     \<Longrightarrow> query api D req = (r, [])"
  by (simp add: query_def)

lemma query_exec_passed:
  "authorization req = Bearer (sharedSecret api) \<Longrightarrow> route req = QueryExec
     \<Longrightarrow> ExecQuery (json req) = Some q \<Longrightarrow> query api D req = post_exec D q"
  by (simp add: query_def bearerAuth_def zValidator_def)

lemma query_all_passed:
  "authorization req = Bearer (sharedSecret api) \<Longrightarrow> route req = QueryAll
     \<Longrightarrow> PreparedQuery (json req) = Some q \<Longrightarrow> query api D req = post_all D q"
  by (simp add: query_def bearerAuth_def zValidator_def)

lemma query_batch_passed:
  "authorization req = Bearer (sharedSecret api) \<Longrightarrow> route req = QueryBatch
     \<Longrightarrow> BatchQuery (json req) = Some b \<Longrightarrow> query api D req = post_batch D b"
  by (simp add: query_def bearerAuth_def zValidator_def)

lemma post_exec_ok:
  "db_exec D (queryText q) = Inr out \<Longrightarrow>
   post_exec D q =
     (\<lparr>status = 200,
       payload = Json (JObj [(js ''count'', or_zero (opt_prop out (js ''count''))),
                             (js ''durationMs'', or_zero (opt_prop out (js ''duration'')))])\<rparr>,
      [Exec (queryText q)])"
  by (simp add: post_exec_def exec_try_def and_then_def invoke_def ret_def c_json_def)

lemma or_zero_of_number: "is_number v \<Longrightarrow> is_number (or_zero v)"
  by (simp add: or_zero_def is_number_def)

lemma bearerAuth_bad:
  "bad_credential (Some s) cred \<Longrightarrow>
   bearerAuth F s cred = Some \<lparr>status = 401, payload = unauthorized F\<rparr>"
  by (cases cred) (simp_all add: bad_credential_def bearerAuth_def)

lemma fetch_no_gateway:
  "DB env = None \<or> APP_SECRET env = None \<or> (\<exists>s. APP_SECRET env = Some s \<and> length s < 16)
     \<Longrightarrow> snd (fetch F env req) = [] \<and> (\<exists>e. fst (fetch F env req) = Inl e)"
  by (auto simp: fetch_def D1HTTP_constructor_def MIN_SECRET_LENGTH_def split: option.splits)

lemma fetch_bad_credential:
  assumes "DB env = Some d" and "APP_SECRET env = Some s" and "16 \<le> length s"
    and "in_query_group req" and "bad_credential (Some s) (authorization req)"
  shows "fetch F env req = (Inr \<lparr>status = 401, payload = unauthorized F\<rparr>, [])"
proof -
  let ?api = "\<lparr>db = d, sharedSecret = s, honoInstance = F\<rparr>"
  have "bearerAuth (honoInstance ?api) (sharedSecret ?api) (authorization req)
          = Some \<lparr>status = 401, payload = unauthorized F\<rparr>"
    using assms(5) by (simp add: bearerAuth_bad)
  then have "query ?api d req = (\<lparr>status = 401, payload = unauthorized F\<rparr>, [])"
    by (rule query_rejected)
  then have "run ?api d req = (\<lparr>status = 401, payload = unauthorized F\<rparr>, [])"
    using run_in_group [OF assms(4), of ?api d] by simp
  then show ?thesis
    using fetch_configured [OF assms(1,2,3), of F req] by simp
qed

lemma BatchQuery_empty: "field v (js ''batch'') = JArr [] \<Longrightarrow> BatchQuery v = None"
  by (cases v) (simp_all add: BatchQuery_def z_nonempty_def z_array_def)

lemma post_all_failed:
  "all_try D q = (Inl err, tr) \<Longrightarrow>
   post_all D q =
     (\<lparr>status = 500,
       payload = Json (JObj [(js ''error'', JStr (js ''failed to run query: '' @ to_string err))])\<rparr>,
      tr)"
  by (simp add: post_all_def c_json_def)

lemma post_batch_failed:
  "batch_try D b = (Inl err, tr) \<Longrightarrow>
   post_batch D b =
     (\<lparr>status = 500,
       payload = Json (JObj [(js ''error'', JStr (js ''failed to batch query: '' @ to_string err))])\<rparr>,
      tr)"
  by (simp add: post_batch_def c_json_def)

lemma error_body_string: "error_body (Json (JObj [(js ''error'', JStr m)]))"
  by (simp add: error_body_def is_string_def field_def)

lemma fetch_responds:
  assumes "DB env = Some d" "APP_SECRET env = Some s" "16 \<le> length s"
  shows "\<exists>r tr. fetch F env req = (Inr r, tr)"
  using fetch_configured [OF assms, of F req] by simp

lemma post_exec_failed:
  "db_exec D (queryText q) = Inl err \<Longrightarrow>
   post_exec D q =
     (\<lparr>status = 500, payload = Json (JObj [(js ''error'', JErr err)])\<rparr>, [Exec (queryText q)])"
  by (simp add: post_exec_def exec_try_def and_then_def invoke_def c_json_def)

lemma prepare_each_result:
  "prepare_each D qs acc = (Inr stmts, tr) \<Longrightarrow>
   \<exists>ys. stmts = acc @ ys
      \<and> map (\<lambda>q. fst (statement_for D q)) qs = map Inr ys
      \<and> tr = concat (map (\<lambda>q. snd (statement_for D q)) qs)"
proof (induction qs arbitrary: acc stmts tr)
  case Nil
  then show ?case by simp
next
  case (Cons q qs)
  obtain r t where st: "statement_for D q = (r, t)" by (cases "statement_for D q")
  show ?case
  proof (cases r)
    case (Inl e)
    with Cons.prems st show ?thesis by simp
  next
    case (Inr stmt)
    obtain r' t' where rest: "prepare_each D qs (acc @ [stmt]) = (r', t')"
      by (cases "prepare_each D qs (acc @ [stmt])")
    with Cons.prems st Inr have r': "r' = Inr stmts" and tr: "tr = t @ t'" by simp_all
    from Cons.IH [of "acc @ [stmt]" stmts t'] rest r'
    obtain ys where ys: "stmts = (acc @ [stmt]) @ ys"
      "map (\<lambda>q. fst (statement_for D q)) qs = map Inr ys"
      "t' = concat (map (\<lambda>q. snd (statement_for D q)) qs)"
      by auto
    have "stmts = acc @ (stmt # ys)" using ys(1) by simp
    moreover have "map (\<lambda>q. fst (statement_for D q)) (q # qs) = map Inr (stmt # ys)"
      using ys(2) st Inr by simp
    moreover have "tr = concat (map (\<lambda>q. snd (statement_for D q)) (q # qs))"
      using ys(3) tr st by simp
    ultimately show ?thesis by blast
  qed
qed

lemma queryResp_object:
  "r \<noteq> JNull \<Longrightarrow> r \<noteq> JUndefined \<Longrightarrow>
   queryResp r = Inr (JObj [(js ''results'', field r (js ''results'')),
                            (js ''error'', field r (js ''error'')),
                            (js ''meta'', field r (js ''meta''))])"
  by (cases r) (simp_all add: queryResp_def read_prop_def)

lemma collect_each_objects:
  "list_all (\<lambda>r. r \<noteq> JNull \<and> r \<noteq> JUndefined) rs \<Longrightarrow>
   \<exists>out. collect_each rs acc = Inr (acc @ out) \<and> map queryResp rs = map Inr out"
proof (induction rs arbitrary: acc)
  case Nil
  then show ?case by simp
next
  case (Cons r rs)
  then have r: "r \<noteq> JNull" "r \<noteq> JUndefined" and rs: "list_all (\<lambda>r. r \<noteq> JNull \<and> r \<noteq> JUndefined) rs"
    by simp_all
  from queryResp_object [OF r] obtain x where x: "queryResp r = Inr x" by blast
  from Cons.IH [OF rs, of "acc @ [x]"] obtain out where
    "collect_each rs (acc @ [x]) = Inr ((acc @ [x]) @ out)" "map queryResp rs = map Inr out"
    by blast
  then have "collect_each (r # rs) acc = Inr (acc @ (x # out)) \<and> map queryResp (r # rs) = map Inr (x # out)"
    using x by simp
  then show ?case by blast
qed

lemma post_batch_ok:
  assumes "prepare_each D (batch b) [] = (Inr stmts, tr)" and "db_batch D stmts = Inr rs"
    and "collect_each rs [] = Inr out"
  shows "post_batch D b = (\<lparr>status = 200, payload = Json (JArr out)\<rparr>, tr @ [Batch stmts])"
  using assms
  by (simp add: post_batch_def batch_try_def and_then_def invoke_def lift_def c_json_def)

lemma BatchQuery_nonempty: "BatchQuery v = Some b \<Longrightarrow> batch b \<noteq> []"
  by (auto simp: BatchQuery_def z_nonempty_def split: jsval.splits option.splits list.splits)

lemma readable_iff: "readable r \<longleftrightarrow> r \<noteq> JNull \<and> r \<noteq> JUndefined"
  by (cases r) (simp_all add: readable_def)

lemma queryResp_unreadable: "\<not> readable r \<Longrightarrow> \<exists>e. queryResp r = Inl e"
  by (cases r) (simp_all add: readable_def queryResp_def read_prop_def)

lemma collect_each_unreadable:
  "\<not> list_all readable rs \<Longrightarrow> \<exists>e. collect_each rs acc = Inl e"
proof (induction rs arbitrary: acc)
  case Nil
  then show ?case by simp
next
  case (Cons r rs)
  show ?case
  proof (cases "readable r")
    case True
    then obtain x where x: "queryResp r = Inr x"
      using queryResp_object [of r] by (auto simp: readable_iff)
    from True Cons.prems have "\<not> list_all readable rs" by simp
    from Cons.IH [OF this, of "acc @ [x]"] x show ?thesis by simp
  next
    case False
    from queryResp_unreadable [OF this] show ?thesis by auto
  qed
qed

lemma post_batch_collect_failed:
  assumes "prepare_each D (batch b) [] = (Inr stmts, tr)" and "db_batch D stmts = Inr rs"
    and "collect_each rs [] = Inl e"
  shows "post_batch D b =
     (\<lparr>status = 500,
       payload = Json (JObj [(js ''error'', JStr (js ''failed to batch query: '' @ to_string e))])\<rparr>,
      tr @ [Batch stmts])"
  using assms
  by (simp add: post_batch_def batch_try_def and_then_def invoke_def lift_def c_json_def)

lemma fetch_query:
  assumes "DB env = Some d" and "APP_SECRET env = Some s" and "16 \<le> length s"
    and "in_query_group req"
  shows "fetch F env req =
           (Inr (fst (query \<lparr>db = d, sharedSecret = s, honoInstance = F\<rparr> d req)),
            snd (query \<lparr>db = d, sharedSecret = s, honoInstance = F\<rparr> d req))"
  using fetch_configured [OF assms(1,2,3), of F req]
    run_in_group [OF assms(4), of "\<lparr>db = d, sharedSecret = s, honoInstance = F\<rparr>" d]
  by simp

lemma query_invalid:
  assumes "authorization req = Bearer (sharedSecret api)"
  shows "route req = QueryAll \<Longrightarrow> PreparedQuery (json req) = None \<Longrightarrow>
           query api D req = (\<lparr>status = 400, payload = invalid (honoInstance api) (json req)\<rparr>, [])"
    and "route req = QueryExec \<Longrightarrow> ExecQuery (json req) = None \<Longrightarrow>
           query api D req = (\<lparr>status = 400, payload = invalid (honoInstance api) (json req)\<rparr>, [])"
    and "route req = QueryBatch \<Longrightarrow> BatchQuery (json req) = None \<Longrightarrow>
           query api D req = (\<lparr>status = 400, payload = invalid (honoInstance api) (json req)\<rparr>, [])"
    and "route req = QueryOther \<Longrightarrow> query api D req = (not_found (honoInstance api), [])"
  using assms by (simp_all add: query_def bearerAuth_def zValidator_def)

lemma query_not_bearer:
  "authorization req = NotBearer \<Longrightarrow> query api D req = (not_bearer (honoInstance api), [])"
  by (simp add: query_def bearerAuth_def)

section \<open>Construction of the gateway\<close>

text \<open>
  Claim C8. For every shared secret shorter than 16 characters the constructor
  of \<^verbatim>\<open>D1HTTP\<close> fails with the configuration error; for every secret of at
  least 16 characters it succeeds and the instance holds the secret unchanged.
\<close>

theorem C8_secret_length:
  "(length s < 16 \<longrightarrow>
      D1HTTP_constructor fresh d (Some s) inst
        = Inl (Error (js ''sharedSecret not long enough: must be at least 16 bytes long'')))
   \<and> (16 \<le> length s \<longrightarrow>
      (\<exists>api. D1HTTP_constructor fresh d (Some s) inst = Inr api \<and> sharedSecret api = s))"
  by (simp add: D1HTTP_constructor_def MIN_SECRET_LENGTH_def)

theorem C8_secret_length_witness:
  "D1HTTP_constructor stub_hono stub_db (Some (js ''too short'')) None
     = Inl (Error (js ''sharedSecret not long enough: must be at least 16 bytes long''))
   \<and> (\<exists>api. D1HTTP_constructor stub_hono stub_db (Some stub_secret) None = Inr api
          \<and> sharedSecret api = stub_secret)"
  using C8_secret_length [of "js ''too short''" stub_hono stub_db None]
        C8_secret_length [of stub_secret stub_hono stub_db None]
  by (simp add: js_def stub_secret_def)

text \<open>
  Claim C9. When the secret is absent the length check is not reached: reading
  \<^verbatim>\<open>length\<close> of \<^verbatim>\<open>undefined\<close> throws a \<^verbatim>\<open>TypeError\<close>, which is not the
  configuration error of the constructor, and \<^verbatim>\<open>fetch\<close> lets it escape.
\<close>

theorem C9_missing_secret:
  "D1HTTP_constructor fresh d None inst
     = Inl (TypeError (js ''Cannot read properties of undefined (reading 'length')''))
   \<and> D1HTTP_constructor fresh d None inst
     \<noteq> Inl (Error (js ''sharedSecret not long enough: must be at least 16 bytes long''))
   \<and> fetch fresh \<lparr>DB = Some d, APP_SECRET = None\<rparr> req
     = (Inl (TypeError (js ''Cannot read properties of undefined (reading 'length')'')), [])"
  by (simp add: D1HTTP_constructor_def fetch_def cannot_read_def js_def)

section \<open>The schemas\<close>

text \<open>
  Claim C2 says that no \<^verbatim>\<open>queryText\<close> made of white space only passes the
  validators. The chain is \<^verbatim>\<open>min(1).max(...).trim()\<close>: the length is checked
  before the value is trimmed. A body whose \<^verbatim>\<open>queryText\<close> is three spaces is
  accepted by both validators, and the handler receives the empty string.
\<close>

theorem C2_whitespace_accepted:
  "PreparedQuery (JObj [(js ''queryText'', JStr (js ''   ''))])
     = Some \<lparr>queryText = [], params = None\<rparr>
   \<and> ExecQuery (JObj [(js ''queryText'', JStr (js ''   ''))]) = Some \<lparr>queryText = []\<rparr>"
  by (simp add: PreparedQuery_def ExecQuery_def z_string_def z_optional_def field_def
        trim_def is_ws_def js_def)

text \<open>
  Claim C5 says that every element of an accepted \<^verbatim>\<open>params\<close> array is a
  scalar. The element schema is \<^verbatim>\<open>z.any()\<close>: a body whose \<^verbatim>\<open>params\<close> holds
  an object and a nested array is accepted and handed on as it is.
\<close>

theorem C5_nonscalar_params_accepted:
  "PreparedQuery (JObj [(js ''queryText'', JStr (js ''SELECT ?'')),
                        (js ''params'', JArr [JObj [], JArr [JNull]])])
     = Some \<lparr>queryText = js ''SELECT ?'', params = Some [JObj [], JArr [JNull]]\<rparr>
   \<and> \<not> list_all scalar [JObj [], JArr [JNull]]"
  by (simp add: PreparedQuery_def z_string_def params_schema field_def
        trim_def is_ws_def js_def scalar_def)

text \<open>
  Claim C5, amended. When an accepted body carries \<^verbatim>\<open>params\<close>, it is an array
  and the handler receives exactly its elements, in order; the elements are not
  inspected, so whether a body with a \<^verbatim>\<open>params\<close> array is accepted depends on
  its \<^verbatim>\<open>queryText\<close> alone. The elements of an accepted \<^verbatim>\<open>batch\<close> are the
  bodies the validator of \<^verbatim>\<open>/query/all/\<close> accepts.
\<close>

theorem C5_params_any_array:
  "(PreparedQuery body = Some q \<longrightarrow> field body (js ''params'') \<noteq> JUndefined \<longrightarrow>
      (\<exists>xs. field body (js ''params'') = JArr xs \<and> params q = Some xs))
   \<and> PreparedQuery (JObj [(js ''queryText'', JStr t), (js ''params'', JArr xs)])
       = (case run_checks [Min 1, Max 10000, Trim] t of
            None \<Rightarrow> None
          | Some t' \<Rightarrow> Some \<lparr>queryText = t', params = Some xs\<rparr>)
   \<and> (BatchQuery body = Some b \<longrightarrow>
      (\<exists>vs. field body (js ''batch'') = JArr vs \<and> map PreparedQuery vs = map Some (batch b)))"
proof (intro conjI impI)
  assume acc: "PreparedQuery body = Some q" and present: "field body (js ''params'') \<noteq> JUndefined"
  from acc obtain ps where
    ps: "z_optional (z_array z_any) (field body (js ''params'')) = Some ps" and q: "params q = ps"
    by (auto simp: PreparedQuery_def split: jsval.splits option.splits)
  from ps present q show "\<exists>xs. field body (js ''params'') = JArr xs \<and> params q = Some xs"
    by (cases "field body (js ''params'')") (simp_all add: params_schema)
next
  show "PreparedQuery (JObj [(js ''queryText'', JStr t), (js ''params'', JArr xs)])
       = (case run_checks [Min 1, Max 10000, Trim] t of
            None \<Rightarrow> None
          | Some t' \<Rightarrow> Some \<lparr>queryText = t', params = Some xs\<rparr>)"
    by (simp add: PreparedQuery_def z_string_def params_schema field_def js_def
          split: option.splits)
next
  assume "BatchQuery body = Some b"
  then obtain qs where
    qs: "z_nonempty (z_array PreparedQuery) (field body (js ''batch'')) = Some qs" and b: "batch b = qs"
    by (auto simp: BatchQuery_def split: jsval.splits option.splits)
  from qs have "z_array PreparedQuery (field body (js ''batch'')) = Some qs"
    by (auto simp: z_nonempty_def split: option.splits list.splits)
  then obtain vs where "field body (js ''batch'') = JArr vs" "those (map PreparedQuery vs) = Some qs"
    by (auto simp: z_array_def split: jsval.splits)
  with b show "\<exists>vs. field body (js ''batch'') = JArr vs \<and> map PreparedQuery vs = map Some (batch b)"
    by (auto dest: those_map_Some)
qed

theorem C5_params_any_array_witness:
  "PreparedQuery (JObj [(js ''queryText'', JStr (js ''SELECT ?'')), (js ''params'', JArr [JObj [], JArr [JNull]])])
     = Some \<lparr>queryText = js ''SELECT ?'', params = Some [JObj [], JArr [JNull]]\<rparr>
   \<and> field (JObj [(js ''queryText'', JStr (js ''SELECT ?'')), (js ''params'', JArr [JObj [], JArr [JNull]])]) (js ''params'')
       \<noteq> JUndefined
   \<and> (\<exists>xs. field (JObj [(js ''queryText'', JStr (js ''SELECT ?'')), (js ''params'', JArr [JObj [], JArr [JNull]])]) (js ''params'') = JArr xs
          \<and> params \<lparr>queryText = js ''SELECT ?'', params = Some [JObj [], JArr [JNull]]\<rparr> = Some xs)
   \<and> BatchQuery (json batch_request)
       = Some \<lparr>batch = [\<lparr>queryText = js ''SELECT 1'', params = None\<rparr>,
                         \<lparr>queryText = js ''SELECT ?'', params = Some [JNum (Finite 2)]\<rparr>]\<rparr>
   \<and> (\<exists>vs. field (json batch_request) (js ''batch'') = JArr vs
          \<and> map PreparedQuery vs
              = map Some [\<lparr>queryText = js ''SELECT 1'', params = None\<rparr>,
                          \<lparr>queryText = js ''SELECT ?'', params = Some [JNum (Finite 2)]\<rparr>])"
proof -
  let ?body = "JObj [(js ''queryText'', JStr (js ''SELECT ?'')), (js ''params'', JArr [JObj [], JArr [JNull]])]"
  let ?q = "\<lparr>queryText = js ''SELECT ?'', params = Some [JObj [], JArr [JNull]]\<rparr>"
  let ?b = "\<lparr>batch = [\<lparr>queryText = js ''SELECT 1'', params = None\<rparr>,
                         \<lparr>queryText = js ''SELECT ?'', params = Some [JNum (Finite 2)]\<rparr>]\<rparr>"
  have 1: "PreparedQuery ?body = Some ?q"
    by (simp add: PreparedQuery_def z_string_def params_schema field_def trim_def is_ws_def js_def)
  have 2: "field ?body (js ''params'') \<noteq> JUndefined"
    by (simp add: field_def js_def)
  have 3: "BatchQuery (json batch_request) = Some ?b"
    by (simp add: batch_request_def BatchQuery_def z_nonempty_def z_array_def PreparedQuery_def
        z_string_def params_schema field_def trim_def is_ws_def js_def)
  from C5_params_any_array [where body = ?body and q = ?q]
       C5_params_any_array [where body = "json batch_request" and b = ?b] 1 2 3
  show ?thesis by simp
qed

section \<open>The handlers\<close>

text \<open>
  Claim C10 says that the 200 response of \<^verbatim>\<open>/query/exec/\<close> always has numeric
  \<^verbatim>\<open>count\<close> and \<^verbatim>\<open>durationMs\<close>. The handler replaces a falsy value by 0
  and passes every truthy value on as it is (lines 159 and 162): a backend that
  reports its count as the string \<^verbatim>\<open>"3"\<close> gets that string into the response.
\<close>

theorem C10_string_count_passed:
  "fetch stub_hono (stub_env\<lparr>DB := Some string_count_db\<rparr>) exec_request
     = (Inr \<lparr>status = 200,
             payload = Json (JObj [(js ''count'', JStr (js ''3'')),
                                   (js ''durationMs'', JNum (Finite 5))])\<rparr>,
        [Exec (js ''INSERT INTO users VALUES(1)'')])
   \<and> \<not> is_number (JStr (js ''3''))"
  by (simp add: fetch_def stub_env_def stub_secret_def D1HTTP_constructor_def
      MIN_SECRET_LENGTH_def run_def query_def bearerAuth_def zValidator_def exec_request_def
      ExecQuery_def z_string_def field_def trim_def is_ws_def post_exec_def exec_try_def
      and_then_def invoke_def ret_def c_json_def string_count_db_def or_zero_def opt_prop_def
      is_number_def js_def)

text \<open>
  Claim C10, amended. For an authenticated, schema-valid \<^verbatim>\<open>POST /query/exec/\<close>
  whose backend call returns, the response is 200 with the members \<^verbatim>\<open>count\<close>
  and \<^verbatim>\<open>durationMs\<close>. Each is the backend's \<^verbatim>\<open>count\<close> (\<^verbatim>\<open>duration\<close>) when
  that is truthy and 0 otherwise, so it is 0 when the backend's result is
  \<^verbatim>\<open>null\<close> or \<^verbatim>\<open>undefined\<close> or lacks the field, and it is a number whenever
  the backend's field is a number.
\<close>

theorem C10_exec_counts:
  assumes "DB env = Some d" and "APP_SECRET env = Some s" and "16 \<le> length s"
    and "route req = QueryExec" and "authorization req = Bearer s"
    and "ExecQuery (json req) = Some q" and "db_exec d (queryText q) = Inr out"
  shows "\<exists>c t. fetch F env req =
           (Inr \<lparr>status = 200,
                 payload = Json (JObj [(js ''count'', c), (js ''durationMs'', t)])\<rparr>,
            [Exec (queryText q)])
         \<and> c = (if truthy (opt_prop out (js ''count'')) then opt_prop out (js ''count'')
                else JNum (Finite 0))
         \<and> t = (if truthy (opt_prop out (js ''duration'')) then opt_prop out (js ''duration'')
                else JNum (Finite 0))
         \<and> (out = JNull \<or> out = JUndefined \<longrightarrow> c = JNum (Finite 0) \<and> t = JNum (Finite 0))
         \<and> (is_number (opt_prop out (js ''count'')) \<longrightarrow> is_number c)
         \<and> (is_number (opt_prop out (js ''duration'')) \<longrightarrow> is_number t)"
proof -
  let ?api = "\<lparr>db = d, sharedSecret = s, honoInstance = F\<rparr>"
  have grp: "in_query_group req" using assms(4) by (simp add: in_query_group_def)
  have "query ?api d req = post_exec d q"
    using assms(4,5,6) by (simp add: query_exec_passed)
  then have "run ?api d req = post_exec d q"
    using run_in_group [OF grp, of ?api d] by simp
  then have "fetch F env req = (Inr (fst (post_exec d q)), snd (post_exec d q))"
    using fetch_configured [OF assms(1,2,3), of F req] by simp
  then have f: "fetch F env req =
      (Inr \<lparr>status = 200,
            payload = Json (JObj [(js ''count'', or_zero (opt_prop out (js ''count''))),
                                  (js ''durationMs'', or_zero (opt_prop out (js ''duration'')))])\<rparr>,
       [Exec (queryText q)])"
    using post_exec_ok [OF assms(7)] by simp
  define c where "c = or_zero (opt_prop out (js ''count''))"
  define t where "t = or_zero (opt_prop out (js ''duration''))"
  have 1: "fetch F env req =
      (Inr \<lparr>status = 200, payload = Json (JObj [(js ''count'', c), (js ''durationMs'', t)])\<rparr>,
       [Exec (queryText q)])"
    using f by (simp add: c_def t_def)
  have 2: "c = (if truthy (opt_prop out (js ''count'')) then opt_prop out (js ''count'')
                else JNum (Finite 0))"
    by (simp add: c_def or_zero_def)
  have 3: "t = (if truthy (opt_prop out (js ''duration'')) then opt_prop out (js ''duration'')
                else JNum (Finite 0))"
    by (simp add: t_def or_zero_def)
  have 4: "out = JNull \<or> out = JUndefined \<longrightarrow> c = JNum (Finite 0) \<and> t = JNum (Finite 0)"
    by (auto simp: c_def t_def or_zero_def opt_prop_def)
  have 5: "is_number (opt_prop out (js ''count'')) \<longrightarrow> is_number c"
    unfolding c_def by (rule impI) (rule or_zero_of_number)
  have 6: "is_number (opt_prop out (js ''duration'')) \<longrightarrow> is_number t"
    unfolding t_def by (rule impI) (rule or_zero_of_number)
  from 1 2 3 4 5 6 show ?thesis by blast
qed

theorem C10_exec_counts_witness:
  "fetch stub_hono stub_env exec_request =
     (Inr \<lparr>status = 200,
           payload = Json (JObj [(js ''count'', JNum (Finite 1)),
                                 (js ''durationMs'', JNum (Finite 0))])\<rparr>,
      [Exec (js ''INSERT INTO users VALUES(1)'')])"
proof -
  have q: "ExecQuery (json exec_request) = Some \<lparr>queryText = js ''INSERT INTO users VALUES(1)''\<rparr>"
    by (simp add: exec_request_def ExecQuery_def z_string_def field_def trim_def is_ws_def js_def)
  have ex: "db_exec stub_db (queryText \<lparr>queryText = js ''INSERT INTO users VALUES(1)''\<rparr>)
         = Inr (JObj [(js ''count'', JNum (Finite 1)), (js ''duration'', JNum (Finite 0))])"
    by (simp add: stub_db_def js_def)
  show ?thesis
    using C10_exec_counts [of stub_env stub_db stub_secret exec_request _ _ stub_hono, OF _ _ _ _ _ q ex]
    by (simp add: stub_env_def stub_secret_def exec_request_def opt_prop_def field_def js_def)
qed

text \<open>
  Claim C1 says that every failed request to a \<^verbatim>\<open>/query\<close> route is answered
  with a JSON object whose \<^verbatim>\<open>error\<close> member is a string, the handler of
  \<^verbatim>\<open>/query/exec/\<close> in particular. That handler passes the caught value itself
  as \<^verbatim>\<open>error\<close> (line 166), where its siblings pass the message string (lines
  138 and 200): when the backend throws, the member is an \<^verbatim>\<open>Error\<close> object.
\<close>

theorem C1_exec_error_not_string:
  "fetch stub_hono stub_env
     \<lparr>route = QueryExec, authorization = Bearer stub_secret,
      json = JObj [(js ''queryText'', JStr (js ''SELEC 1''))]\<rparr>
   = (Inr \<lparr>status = 500, payload = Json (JObj [(js ''error'', JErr syntax_error)])\<rparr>,
      [Exec (js ''SELEC 1'')])
   \<and> \<not> error_body (Json (JObj [(js ''error'', JErr syntax_error)]))"
  by (simp add: fetch_def stub_env_def stub_secret_def D1HTTP_constructor_def
      MIN_SECRET_LENGTH_def run_def query_def bearerAuth_def zValidator_def ExecQuery_def
      z_string_def field_def trim_def is_ws_def post_exec_def exec_try_def and_then_def
      invoke_def ret_def c_json_def stub_db_def error_body_def is_string_def js_def)

section \<open>Authentication and validation\<close>

text \<open>
  Claim C4. A request to a route of the \<^verbatim>\<open>/query\<close> group whose
  \<^verbatim>\<open>Authorization\<close> header is missing, or whose bearer token is not the
  configured secret, causes no call of the database binding; and whenever the
  gateway is constructed (the binding is there and the secret has at least 16
  characters), the response has status 401.
\<close>

theorem C4_unauthenticated:
  assumes "in_query_group req" and "bad_credential (APP_SECRET env) (authorization req)"
  shows "snd (fetch F env req) = []
     \<and> (\<forall>d s. DB env = Some d \<longrightarrow> APP_SECRET env = Some s \<longrightarrow> 16 \<le> length s \<longrightarrow>
          fst (fetch F env req) = Inr \<lparr>status = 401, payload = unauthorized F\<rparr>)"
proof (cases "\<exists>d s. DB env = Some d \<and> APP_SECRET env = Some s \<and> 16 \<le> length s")
  case True
  then obtain d s where cfg: "DB env = Some d" "APP_SECRET env = Some s" "16 \<le> length s"
    by blast
  from assms(2) cfg(2) have "bad_credential (Some s) (authorization req)" by simp
  from fetch_bad_credential [OF cfg assms(1) this, of F] cfg show ?thesis by simp
next
  case False
  then have "DB env = None \<or> APP_SECRET env = None \<or> (\<exists>s. APP_SECRET env = Some s \<and> length s < 16)"
    by (cases "DB env"; cases "APP_SECRET env") (auto simp: not_le)
  then have "snd (fetch F env req) = []" by (simp add: fetch_no_gateway)
  with False show ?thesis by auto
qed

theorem C4_unauthenticated_witness:
  "in_query_group (empty_batch NoHeader)
   \<and> bad_credential (APP_SECRET stub_env) (authorization (empty_batch NoHeader))
   \<and> bad_credential (APP_SECRET stub_env) (authorization (empty_batch (Bearer (js ''0123456789abcdeX''))))
   \<and> fetch stub_hono stub_env (empty_batch NoHeader)
       = (Inr \<lparr>status = 401, payload = Plain (js ''Unauthorized'')\<rparr>, [])
   \<and> fetch stub_hono stub_env (empty_batch (Bearer (js ''0123456789abcdeX'')))
       = (Inr \<lparr>status = 401, payload = Plain (js ''Unauthorized'')\<rparr>, [])"
proof -
  have g: "in_query_group (empty_batch c)" for c
    by (simp add: in_query_group_def empty_batch_def)
  have b1: "bad_credential (APP_SECRET stub_env) (authorization (empty_batch NoHeader))"
    by (simp add: bad_credential_def empty_batch_def)
  have b2: "bad_credential (APP_SECRET stub_env) (authorization (empty_batch (Bearer (js ''0123456789abcdeX''))))"
    by (simp add: bad_credential_def empty_batch_def stub_env_def stub_secret_def js_def)
  have cfg: "DB stub_env = Some stub_db" "APP_SECRET stub_env = Some stub_secret" "16 \<le> length stub_secret"
    by (simp_all add: stub_env_def stub_secret_def js_def)
  from C4_unauthenticated [OF g b1, of stub_hono] C4_unauthenticated [OF g b2, of stub_hono] cfg g b1 b2
  show ?thesis
    by (simp add: prod_eq_iff stub_hono_def)
qed

text \<open>
  Claim C3 says that an empty \<^verbatim>\<open>batch\<close> is answered with 400 whether or not
  the request is authenticated. The bearer middleware of the group runs before
  the validator of the route: without a credential the answer is 401.
\<close>

theorem C3_unauthenticated_empty_batch:
  "fetch stub_hono stub_env (empty_batch NoHeader)
     = (Inr \<lparr>status = 401, payload = Plain (js ''Unauthorized'')\<rparr>, [])
   \<and> field (json (empty_batch NoHeader)) (js ''batch'') = JArr []"
  by (simp add: fetch_def stub_env_def stub_secret_def D1HTTP_constructor_def
      MIN_SECRET_LENGTH_def run_def query_def bearerAuth_def empty_batch_def stub_hono_def
      field_def js_def)

text \<open>
  Claim C3, amended. With the gateway constructed, a \<^verbatim>\<open>POST /query/batch/\<close>
  whose \<^verbatim>\<open>batch\<close> is the empty array is answered with 400 when it carries the
  configured bearer token, and with 401 when its header is missing or its token
  is wrong; in both cases the binding is not called.
\<close>

theorem C3_empty_batch:
  assumes "DB env = Some d" and "APP_SECRET env = Some s" and "16 \<le> length s"
    and "route req = QueryBatch" and "field (json req) (js ''batch'') = JArr []"
  shows "(authorization req = Bearer s \<longrightarrow>
            fetch F env req = (Inr \<lparr>status = 400, payload = invalid F (json req)\<rparr>, []))
       \<and> (bad_credential (Some s) (authorization req) \<longrightarrow>
            fetch F env req = (Inr \<lparr>status = 401, payload = unauthorized F\<rparr>, []))"
proof (intro conjI impI)
  let ?api = "\<lparr>db = d, sharedSecret = s, honoInstance = F\<rparr>"
  have grp: "in_query_group req" using assms(4) by (simp add: in_query_group_def)
  {
    assume "authorization req = Bearer s"
    then have "query ?api d req = (\<lparr>status = 400, payload = invalid F (json req)\<rparr>, [])"
      using assms(4) BatchQuery_empty [OF assms(5)]
      by (simp add: query_def bearerAuth_def zValidator_def)
    then have "run ?api d req = (\<lparr>status = 400, payload = invalid F (json req)\<rparr>, [])"
      using run_in_group [OF grp, of ?api d] by simp
    then show "fetch F env req = (Inr \<lparr>status = 400, payload = invalid F (json req)\<rparr>, [])"
      using fetch_configured [OF assms(1,2,3), of F req] by simp
  }
  {
    assume "bad_credential (Some s) (authorization req)"
    from fetch_bad_credential [OF assms(1,2,3) grp this]
    show "fetch F env req = (Inr \<lparr>status = 401, payload = unauthorized F\<rparr>, [])" .
  }
qed

theorem C3_empty_batch_witness:
  "fetch stub_hono stub_env (empty_batch (Bearer stub_secret))
     = (Inr \<lparr>status = 400, payload = Json (JObj [(js ''success'', JBool False)])\<rparr>, [])
   \<and> bad_credential (Some stub_secret) (authorization (empty_batch NoHeader))
   \<and> fetch stub_hono stub_env (empty_batch NoHeader)
       = (Inr \<lparr>status = 401, payload = Plain (js ''Unauthorized'')\<rparr>, [])"
proof -
  have cfg: "DB stub_env = Some stub_db" "APP_SECRET stub_env = Some stub_secret"
    "16 \<le> length stub_secret"
    by (simp_all add: stub_env_def stub_secret_def js_def)
  have r: "route (empty_batch c) = QueryBatch" for c
    by (simp add: empty_batch_def)
  have e: "field (json (empty_batch c)) (js ''batch'') = JArr []" for c
    by (simp add: empty_batch_def field_def)
  have b: "bad_credential (Some stub_secret) (authorization (empty_batch NoHeader))"
    by (simp add: bad_credential_def empty_batch_def)
  from C3_empty_batch [OF cfg r e, of "Bearer stub_secret" stub_hono]
       C3_empty_batch [OF cfg r e, of NoHeader stub_hono] b
  show ?thesis
    by (simp add: empty_batch_def stub_hono_def)
qed

section \<open>Failure paths\<close>

text \<open>
  Claim C6 says that no request ends in an unhandled exception, the one handled
  without a database binding included. \<^verbatim>\<open>fetch\<close> throws in that case (line 88)
  and nothing catches it.
\<close>

theorem C6_missing_database_throws:
  "fetch stub_hono \<lparr>DB = (None :: (jsstring \<times> jsval list) D1Database option),
                     APP_SECRET = Some stub_secret\<rparr> (failing_request QueryAll)
     = (Inl no_database, [])"
  by (simp add: fetch_def)

text \<open>
  Claim C6, amended. Without a database binding, and with a secret shorter than
  16 characters, \<^verbatim>\<open>fetch\<close> throws the configuration error and gives no
  response. With both in place every request gets a response, and every failure
  path has a status that is not 2xx: 401 for a \<^verbatim>\<open>/query\<close> request whose header
  is missing or whose token is wrong, 400 for an authenticated request whose
  body the route's schema rejects, 500 when the handler catches a thrown value.
  The 500 of \<^verbatim>\<open>/query/all/\<close> and \<^verbatim>\<open>/query/batch/\<close> carries a JSON object
  whose \<^verbatim>\<open>error\<close> is the string \<^verbatim>\<open>failed to run query: \<close> or
  \<^verbatim>\<open>failed to batch query: \<close> followed by the text of the thrown value. The
  bodies of the 401 and the 400 are those of the middleware; a header that is
  not a bearer credential and a path without a handler get the framework's own
  response; these answers come without a call of the binding.
\<close>

theorem C6_failure_paths:
  "(DB env = None \<longrightarrow> fetch F env req = (Inl no_database, []))
   \<and> (DB env = Some d \<longrightarrow> APP_SECRET env = Some s \<longrightarrow> length s < 16 \<longrightarrow>
        fetch F env req
          = (Inl (Error (js ''sharedSecret not long enough: must be at least 16 bytes long'')), []))
   \<and> (DB env = Some d \<longrightarrow> APP_SECRET env = Some s \<longrightarrow> 16 \<le> length s \<longrightarrow>
        (\<exists>r tr. fetch F env req = (Inr r, tr))
        \<and> (in_query_group req \<longrightarrow> bad_credential (Some s) (authorization req) \<longrightarrow>
             fetch F env req = (Inr \<lparr>status = 401, payload = unauthorized F\<rparr>, []))
        \<and> (in_query_group req \<longrightarrow> authorization req = NotBearer \<longrightarrow>
             fetch F env req = (Inr (not_bearer F), []))
        \<and> (authorization req = Bearer s \<longrightarrow> route req = QueryAll \<longrightarrow>
             PreparedQuery (json req) = None \<longrightarrow>
             fetch F env req = (Inr \<lparr>status = 400, payload = invalid F (json req)\<rparr>, []))
        \<and> (authorization req = Bearer s \<longrightarrow> route req = QueryExec \<longrightarrow>
             ExecQuery (json req) = None \<longrightarrow>
             fetch F env req = (Inr \<lparr>status = 400, payload = invalid F (json req)\<rparr>, []))
        \<and> (authorization req = Bearer s \<longrightarrow> route req = QueryBatch \<longrightarrow>
             BatchQuery (json req) = None \<longrightarrow>
             fetch F env req = (Inr \<lparr>status = 400, payload = invalid F (json req)\<rparr>, []))
        \<and> (authorization req = Bearer s \<longrightarrow> route req = QueryOther \<longrightarrow>
             fetch F env req = (Inr (not_found F), []))
        \<and> (route req = NoRoute \<longrightarrow> fetch F env req = (Inr (not_found F), []))
        \<and> (authorization req = Bearer s \<longrightarrow> route req = QueryAll \<longrightarrow>
             PreparedQuery (json req) = Some q \<longrightarrow> all_try d q = (Inl err, tr) \<longrightarrow>
             fetch F env req
               = (Inr \<lparr>status = 500,
                       payload = Json (JObj [(js ''error'',
                                   JStr (js ''failed to run query: '' @ to_string err))])\<rparr>, tr))
        \<and> (authorization req = Bearer s \<longrightarrow> route req = QueryBatch \<longrightarrow>
             BatchQuery (json req) = Some b \<longrightarrow> batch_try d b = (Inl err, tr) \<longrightarrow>
             fetch F env req
               = (Inr \<lparr>status = 500,
                       payload = Json (JObj [(js ''error'',
                                   JStr (js ''failed to batch query: '' @ to_string err))])\<rparr>, tr))
        \<and> (authorization req = Bearer s \<longrightarrow> route req = QueryExec \<longrightarrow>
             ExecQuery (json req) = Some e \<longrightarrow> db_exec d (queryText e) = Inl err \<longrightarrow>
             (\<exists>r. fetch F env req = (Inr r, [Exec (queryText e)]) \<and> status r = 500)))
   \<and> error_body (Json (JObj [(js ''error'', JStr m)]))
   \<and> non_2xx 401 \<and> non_2xx 400 \<and> non_2xx 500"
proof -
  let ?api = "\<lparr>db = d, sharedSecret = s, honoInstance = F\<rparr>"
  have A: "fetch F env req = (Inl no_database, [])" if "DB env = None"
    using that by (simp add: fetch_def)
  have B: "fetch F env req
          = (Inl (Error (js ''sharedSecret not long enough: must be at least 16 bytes long'')), [])"
    if "DB env = Some d" "APP_SECRET env = Some s" "length s < 16"
    using that by (simp add: fetch_def D1HTTP_constructor_def MIN_SECRET_LENGTH_def)
  have C: "(\<exists>r tr. fetch F env req = (Inr r, tr))
        \<and> (in_query_group req \<longrightarrow> bad_credential (Some s) (authorization req) \<longrightarrow>
             fetch F env req = (Inr \<lparr>status = 401, payload = unauthorized F\<rparr>, []))
        \<and> (in_query_group req \<longrightarrow> authorization req = NotBearer \<longrightarrow>
             fetch F env req = (Inr (not_bearer F), []))
        \<and> (authorization req = Bearer s \<longrightarrow> route req = QueryAll \<longrightarrow>
             PreparedQuery (json req) = None \<longrightarrow>
             fetch F env req = (Inr \<lparr>status = 400, payload = invalid F (json req)\<rparr>, []))
        \<and> (authorization req = Bearer s \<longrightarrow> route req = QueryExec \<longrightarrow>
             ExecQuery (json req) = None \<longrightarrow>
             fetch F env req = (Inr \<lparr>status = 400, payload = invalid F (json req)\<rparr>, []))
        \<and> (authorization req = Bearer s \<longrightarrow> route req = QueryBatch \<longrightarrow>
             BatchQuery (json req) = None \<longrightarrow>
             fetch F env req = (Inr \<lparr>status = 400, payload = invalid F (json req)\<rparr>, []))
        \<and> (authorization req = Bearer s \<longrightarrow> route req = QueryOther \<longrightarrow>
             fetch F env req = (Inr (not_found F), []))
        \<and> (route req = NoRoute \<longrightarrow> fetch F env req = (Inr (not_found F), []))
        \<and> (authorization req = Bearer s \<longrightarrow> route req = QueryAll \<longrightarrow>
             PreparedQuery (json req) = Some q \<longrightarrow> all_try d q = (Inl err, tr) \<longrightarrow>
             fetch F env req
               = (Inr \<lparr>status = 500,
                       payload = Json (JObj [(js ''error'',
                                   JStr (js ''failed to run query: '' @ to_string err))])\<rparr>, tr))
        \<and> (authorization req = Bearer s \<longrightarrow> route req = QueryBatch \<longrightarrow>
             BatchQuery (json req) = Some b \<longrightarrow> batch_try d b = (Inl err, tr) \<longrightarrow>
             fetch F env req
               = (Inr \<lparr>status = 500,
                       payload = Json (JObj [(js ''error'',
                                   JStr (js ''failed to batch query: '' @ to_string err))])\<rparr>, tr))
        \<and> (authorization req = Bearer s \<longrightarrow> route req = QueryExec \<longrightarrow>
             ExecQuery (json req) = Some e \<longrightarrow> db_exec d (queryText e) = Inl err \<longrightarrow>
             (\<exists>r. fetch F env req = (Inr r, [Exec (queryText e)]) \<and> status r = 500))"
    if cfg: "DB env = Some d" "APP_SECRET env = Some s" "16 \<le> length s"
  proof (intro conjI impI)
    show "\<exists>r tr. fetch F env req = (Inr r, tr)"
      using cfg by (rule fetch_responds)
    show "fetch F env req = (Inr \<lparr>status = 401, payload = unauthorized F\<rparr>, [])"
      if "in_query_group req" "bad_credential (Some s) (authorization req)"
      using fetch_bad_credential [OF cfg that] .
    show "fetch F env req = (Inr (not_bearer F), [])"
      if g: "in_query_group req" and n: "authorization req = NotBearer"
      using fetch_query [OF cfg g, of F] query_not_bearer [OF n, of ?api d] by simp
    show "fetch F env req = (Inr \<lparr>status = 400, payload = invalid F (json req)\<rparr>, [])"
      if a: "authorization req = Bearer s" and r: "route req = QueryAll"
        and v: "PreparedQuery (json req) = None"
    proof -
      have g: "in_query_group req" using r by (simp add: in_query_group_def)
      have a': "authorization req = Bearer (sharedSecret ?api)" using a by simp
      show ?thesis
        using fetch_query [OF cfg g, of F] query_invalid(1) [OF a' r v, of d] by simp
    qed
    show "fetch F env req = (Inr \<lparr>status = 400, payload = invalid F (json req)\<rparr>, [])"
      if a: "authorization req = Bearer s" and r: "route req = QueryExec"
        and v: "ExecQuery (json req) = None"
    proof -
      have g: "in_query_group req" using r by (simp add: in_query_group_def)
      have a': "authorization req = Bearer (sharedSecret ?api)" using a by simp
      show ?thesis
        using fetch_query [OF cfg g, of F] query_invalid(2) [OF a' r v, of d] by simp
    qed
    show "fetch F env req = (Inr \<lparr>status = 400, payload = invalid F (json req)\<rparr>, [])"
      if a: "authorization req = Bearer s" and r: "route req = QueryBatch"
        and v: "BatchQuery (json req) = None"
    proof -
      have g: "in_query_group req" using r by (simp add: in_query_group_def)
      have a': "authorization req = Bearer (sharedSecret ?api)" using a by simp
      show ?thesis
        using fetch_query [OF cfg g, of F] query_invalid(3) [OF a' r v, of d] by simp
    qed
    show "fetch F env req = (Inr (not_found F), [])"
      if a: "authorization req = Bearer s" and r: "route req = QueryOther"
    proof -
      have g: "in_query_group req" using r by (simp add: in_query_group_def)
      have a': "authorization req = Bearer (sharedSecret ?api)" using a by simp
      show ?thesis
        using fetch_query [OF cfg g, of F] query_invalid(4) [OF a' r, of d] by simp
    qed
    show "fetch F env req = (Inr (not_found F), [])" if "route req = NoRoute"
      using fetch_configured [OF cfg, of F req] that by (simp add: run_def)
    show "fetch F env req
            = (Inr \<lparr>status = 500,
                   payload = Json (JObj [(js ''error'',
                               JStr (js ''failed to run query: '' @ to_string err))])\<rparr>, tr)"
      if a: "authorization req = Bearer s" and r: "route req = QueryAll"
        and v: "PreparedQuery (json req) = Some q" and f: "all_try d q = (Inl err, tr)"
    proof -
      have g: "in_query_group req" using r by (simp add: in_query_group_def)
      have "query ?api d req = post_all d q" using a r v by (simp add: query_all_passed)
      then show ?thesis
        using fetch_query [OF cfg g, of F] post_all_failed [OF f] by simp
    qed
    show "fetch F env req
            = (Inr \<lparr>status = 500,
                   payload = Json (JObj [(js ''error'',
                               JStr (js ''failed to batch query: '' @ to_string err))])\<rparr>, tr)"
      if a: "authorization req = Bearer s" and r: "route req = QueryBatch"
        and v: "BatchQuery (json req) = Some b" and f: "batch_try d b = (Inl err, tr)"
    proof -
      have g: "in_query_group req" using r by (simp add: in_query_group_def)
      have "query ?api d req = post_batch d b" using a r v by (simp add: query_batch_passed)
      then show ?thesis
        using fetch_query [OF cfg g, of F] post_batch_failed [OF f] by simp
    qed
    show "\<exists>r. fetch F env req = (Inr r, [Exec (queryText e)]) \<and> status r = 500"
      if a: "authorization req = Bearer s" and r: "route req = QueryExec"
        and v: "ExecQuery (json req) = Some e" and f: "db_exec d (queryText e) = Inl err"
    proof -
      have g: "in_query_group req" using r by (simp add: in_query_group_def)
      have "query ?api d req = post_exec d e" using a r v by (simp add: query_exec_passed)
      then show ?thesis
        using fetch_query [OF cfg g, of F] post_exec_failed [OF f] by simp
    qed
  qed
  have D: "error_body (Json (JObj [(js ''error'', JStr m)]))" by (rule error_body_string)
  have E: "non_2xx 401" "non_2xx 400" "non_2xx 500" by (simp_all add: non_2xx_def)
  from A B C D E show ?thesis by blast
qed

theorem C6_failure_paths_witness:
  "fetch stub_hono (stub_env\<lparr>DB := None\<rparr>) (failing_request QueryAll) = (Inl no_database, [])
   \<and> fetch stub_hono (stub_env\<lparr>APP_SECRET := Some (js ''too short'')\<rparr>) (failing_request QueryAll)
       = (Inl (Error (js ''sharedSecret not long enough: must be at least 16 bytes long'')), [])
   \<and> fetch stub_hono stub_env (empty_batch NoHeader)
       = (Inr \<lparr>status = 401, payload = Plain (js ''Unauthorized'')\<rparr>, [])
   \<and> fetch stub_hono stub_env (empty_batch (Bearer stub_secret))
       = (Inr \<lparr>status = 400, payload = Json (JObj [(js ''success'', JBool False)])\<rparr>, [])
   \<and> fetch stub_hono stub_env (failing_request QueryAll)
       = (Inr \<lparr>status = 500,
               payload = Json (JObj [(js ''error'',
                           JStr (js ''failed to run query: Error: D1_ERROR: syntax error''))])\<rparr>,
          [Prepare (js ''SELEC 1''), All (js ''SELEC 1'', [])])
   \<and> (\<exists>r. fetch stub_hono stub_env (failing_request QueryExec) = (Inr r, [Exec (js ''SELEC 1'')])
          \<and> status r = 500)"
proof -
  let ?q = "\<lparr>queryText = js ''SELEC 1'', params = None\<rparr>"
  let ?e = "\<lparr>queryText = js ''SELEC 1''\<rparr>"
  have cfg: "DB stub_env = Some stub_db" "APP_SECRET stub_env = Some stub_secret"
    "16 \<le> length stub_secret"
    by (simp_all add: stub_env_def stub_secret_def js_def)
  have n: "DB (stub_env\<lparr>DB := None\<rparr>) = None" by simp
  have sh: "DB (stub_env\<lparr>APP_SECRET := Some (js ''too short'')\<rparr>) = Some stub_db"
    "APP_SECRET (stub_env\<lparr>APP_SECRET := Some (js ''too short'')\<rparr>) = Some (js ''too short'')"
    "length (js ''too short'') < 16"
    by (simp_all add: stub_env_def js_def)
  have u: "in_query_group (empty_batch NoHeader)"
    "bad_credential (Some stub_secret) (authorization (empty_batch NoHeader))"
    by (simp_all add: in_query_group_def bad_credential_def empty_batch_def)
  have i: "authorization (empty_batch (Bearer stub_secret)) = Bearer stub_secret"
    "route (empty_batch (Bearer stub_secret)) = QueryBatch"
    "BatchQuery (json (empty_batch (Bearer stub_secret))) = None"
    by (simp_all add: empty_batch_def BatchQuery_empty field_def)
  have a: "authorization (failing_request r) = Bearer stub_secret"
    and r: "route (failing_request r) = r" for r
    by (simp_all add: failing_request_def)
  have v: "PreparedQuery (json (failing_request QueryAll)) = Some ?q"
    by (simp add: failing_request_def PreparedQuery_def z_string_def params_schema field_def
        trim_def is_ws_def js_def)
  have f: "all_try stub_db ?q = (Inl syntax_error, [Prepare (js ''SELEC 1''), All (js ''SELEC 1'', [])])"
    by (simp add: all_try_def statement_for_def and_then_def invoke_def ret_def stub_db_def js_def)
  have m: "js ''failed to run query: '' @ to_string syntax_error
             = js ''failed to run query: Error: D1_ERROR: syntax error''"
    by (simp add: to_string_def syntax_error_def js_def)
  have v': "ExecQuery (json (failing_request QueryExec)) = Some ?e"
    by (simp add: failing_request_def ExecQuery_def z_string_def field_def
        trim_def is_ws_def js_def)
  have f': "db_exec stub_db (queryText ?e) = Inl syntax_error"
    by (simp add: stub_db_def)
  have 1: "fetch stub_hono (stub_env\<lparr>DB := None\<rparr>) (failing_request QueryAll)
             = (Inl no_database, [])"
    using C6_failure_paths [where env = "stub_env\<lparr>DB := None\<rparr>"
        and req = "failing_request QueryAll" and F = stub_hono] n
    by simp
  have 2: "fetch stub_hono (stub_env\<lparr>APP_SECRET := Some (js ''too short'')\<rparr>)
             (failing_request QueryAll)
       = (Inl (Error (js ''sharedSecret not long enough: must be at least 16 bytes long'')), [])"
    using C6_failure_paths [where env = "stub_env\<lparr>APP_SECRET := Some (js ''too short'')\<rparr>"
        and d = stub_db and s = "js ''too short''" and req = "failing_request QueryAll"
        and F = stub_hono] sh
    by simp
  have 3: "fetch stub_hono stub_env (empty_batch NoHeader)
       = (Inr \<lparr>status = 401, payload = unauthorized stub_hono\<rparr>, [])"
    using C6_failure_paths [where env = stub_env and d = stub_db and s = stub_secret
        and req = "empty_batch NoHeader" and F = stub_hono] cfg u
    by simp
  have 4: "fetch stub_hono stub_env (empty_batch (Bearer stub_secret))
       = (Inr \<lparr>status = 400,
               payload = invalid stub_hono (json (empty_batch (Bearer stub_secret)))\<rparr>, [])"
    using C6_failure_paths [where env = stub_env and d = stub_db and s = stub_secret
        and req = "empty_batch (Bearer stub_secret)" and F = stub_hono] cfg i
    by simp
  have 5: "fetch stub_hono stub_env (failing_request QueryAll)
       = (Inr \<lparr>status = 500,
               payload = Json (JObj [(js ''error'',
                           JStr (js ''failed to run query: '' @ to_string syntax_error))])\<rparr>,
          [Prepare (js ''SELEC 1''), All (js ''SELEC 1'', [])])"
    using C6_failure_paths [where env = stub_env and d = stub_db and s = stub_secret
        and req = "failing_request QueryAll" and F = stub_hono and q = ?q
        and err = syntax_error and tr = "[Prepare (js ''SELEC 1''), All (js ''SELEC 1'', [])]"]
      cfg a r v f
    by simp
  have 6: "\<exists>r. fetch stub_hono stub_env (failing_request QueryExec)
                 = (Inr r, [Exec (queryText ?e)]) \<and> status r = 500"
    using C6_failure_paths [where env = stub_env and d = stub_db and s = stub_secret
        and req = "failing_request QueryExec" and F = stub_hono and e = ?e
        and err = syntax_error]
      cfg a r v' f'
    by simp
  from 1 2 3 4 5 6 m show ?thesis
    by (simp add: stub_hono_def)
qed

section \<open>Batch results\<close>

text \<open>
  Claim C7 says that whenever the backend's batch call succeeds the response is
  an array of exactly N results. The handler pushes one element per result the
  binding returned (lines 189 to 196) and checks neither their number nor their
  shape: a binding that returns one result for two statements gives a 200 with an
  array of one element, and one that returns \<^verbatim>\<open>null\<close> entries gives a 500.
\<close>

theorem C7_short_batch_result:
  "fetch stub_hono (stub_env\<lparr>DB := Some short_db\<rparr>) batch_request
     = (Inr \<lparr>status = 200,
             payload = Json (JArr
               [JObj [(js ''results'', JArr [JStr (js ''SELECT 1'')]),
                      (js ''error'', JUndefined),
                      (js ''meta'', JObj [(js ''duration'', JNum (Finite 0))])]])\<rparr>,
        [Prepare (js ''SELECT 1''), Prepare (js ''SELECT ?''),
         Bind (js ''SELECT ?'', []) [JNum (Finite 2)],
         Batch [(js ''SELECT 1'', []), (js ''SELECT ?'', [JNum (Finite 2)])]])
   \<and> BatchQuery (json batch_request)
       = Some \<lparr>batch = [\<lparr>queryText = js ''SELECT 1'', params = None\<rparr>,
                         \<lparr>queryText = js ''SELECT ?'', params = Some [JNum (Finite 2)]\<rparr>]\<rparr>
   \<and> fst (fetch stub_hono (stub_env\<lparr>DB := Some null_db\<rparr>) batch_request)
       = Inr \<lparr>status = 500,
              payload = Json (JObj [(js ''error'',
                 JStr (js ''failed to batch query: TypeError: Cannot read properties of null (reading 'results')''))])\<rparr>"
  by (simp add: fetch_def stub_env_def stub_secret_def D1HTTP_constructor_def
      MIN_SECRET_LENGTH_def run_def query_def bearerAuth_def zValidator_def
      batch_request_def BatchQuery_def z_nonempty_def z_array_def PreparedQuery_def
      z_string_def params_schema field_def trim_def is_ws_def
      post_batch_def batch_try_def statement_for_def and_then_def invoke_def ret_def lift_def
      c_json_def short_db_def null_db_def stub_db_def stub_result_def queryResp_def read_prop_def
      cannot_read_def to_string_def js_def)

text \<open>
  Claim C7, amended. For an authenticated, schema-valid \<^verbatim>\<open>POST /query/batch/\<close>
  with N queries whose statements are all prepared and whose batch call
  succeeds: the N statements are prepared and bound in the order of submission
  and submitted in one call, statement i being the one built from query i. When
  every returned result can be read, the response is 200 with an array of as
  many elements as the binding returned, element i built from result i, so it
  has N elements exactly when the binding returned one result per statement.
  When a returned entry is \<^verbatim>\<open>null\<close> or \<^verbatim>\<open>undefined\<close>, the response is 500
  with the error string of the handler.
\<close>

theorem C7_batch_order:
  assumes "DB env = Some d" and "APP_SECRET env = Some s" and "16 \<le> length s"
    and "route req = QueryBatch" and "authorization req = Bearer s"
    and "BatchQuery (json req) = Some b"
    and "prepare_each d (batch b) [] = (Inr stmts, tr)"
    and "db_batch d stmts = Inr rs"
  shows "0 < length (batch b)
         \<and> length stmts = length (batch b)
         \<and> tr = concat (map (\<lambda>q. snd (statement_for d q)) (batch b))
         \<and> (\<forall>i < length (batch b). fst (statement_for d (batch b ! i)) = Inr (stmts ! i))
         \<and> (list_all readable rs \<longrightarrow>
              (\<exists>out. fetch F env req
                        = (Inr \<lparr>status = 200, payload = Json (JArr out)\<rparr>, tr @ [Batch stmts])
                 \<and> length out = length rs
                 \<and> (\<forall>i < length rs. queryResp (rs ! i) = Inr (out ! i))
                 \<and> (length out = length (batch b) \<longleftrightarrow> length rs = length stmts)))
         \<and> (\<not> list_all readable rs \<longrightarrow>
              (\<exists>e. fetch F env req
                      = (Inr \<lparr>status = 500,
                              payload = Json (JObj [(js ''error'',
                                  JStr (js ''failed to batch query: '' @ to_string e))])\<rparr>,
                         tr @ [Batch stmts])))"
proof -
  let ?api = "\<lparr>db = d, sharedSecret = s, honoInstance = F\<rparr>"
  from prepare_each_result [OF assms(7)]
  have st: "map (\<lambda>q. fst (statement_for d q)) (batch b) = map Inr stmts"
    and tr: "tr = concat (map (\<lambda>q. snd (statement_for d q)) (batch b))"
    by auto
  from st have len_st: "length stmts = length (batch b)"
    by (metis length_map)
  have pos: "0 < length (batch b)" using BatchQuery_nonempty [OF assms(6)] by simp
  have stmt_i: "\<forall>i < length (batch b). fst (statement_for d (batch b ! i)) = Inr (stmts ! i)"
  proof (intro allI impI)
    fix i assume i: "i < length (batch b)"
    have "map (\<lambda>q. fst (statement_for d q)) (batch b) ! i = map Inr stmts ! i"
      using st by simp
    then show "fst (statement_for d (batch b ! i)) = Inr (stmts ! i)"
      using i len_st by simp
  qed
  have grp: "in_query_group req" using assms(4) by (simp add: in_query_group_def)
  then have "run ?api d req = query ?api d req" by (rule run_in_group)
  also have "\<dots> = post_batch d b" using assms(4,5,6) by (simp add: query_batch_passed)
  finally have f: "fetch F env req = (Inr (fst (post_batch d b)), snd (post_batch d b))"
    using fetch_configured [OF assms(1,2,3), of F req] by simp
  have good: "\<exists>out. fetch F env req
                        = (Inr \<lparr>status = 200, payload = Json (JArr out)\<rparr>, tr @ [Batch stmts])
                 \<and> length out = length rs
                 \<and> (\<forall>i < length rs. queryResp (rs ! i) = Inr (out ! i))
                 \<and> (length out = length (batch b) \<longleftrightarrow> length rs = length stmts)"
    if ok: "list_all readable rs"
  proof -
    from ok have "list_all (\<lambda>r. r \<noteq> JNull \<and> r \<noteq> JUndefined) rs"
      by (simp add: list_all_iff readable_iff)
    from collect_each_objects [OF this, of "[]"] obtain out where
      out: "collect_each rs [] = Inr out" and resp: "map queryResp rs = map Inr out"
      by auto
    from resp have len_out: "length out = length rs" by (metis length_map)
    have each: "\<forall>i < length rs. queryResp (rs ! i) = Inr (out ! i)"
    proof (intro allI impI)
      fix i assume i: "i < length rs"
      have "map queryResp rs ! i = map Inr out ! i" using resp by simp
      then show "queryResp (rs ! i) = Inr (out ! i)" using i len_out by simp
    qed
    have "fetch F env req = (Inr \<lparr>status = 200, payload = Json (JArr out)\<rparr>, tr @ [Batch stmts])"
      using f post_batch_ok [OF assms(7,8) out] by simp
    with len_out each len_st show ?thesis by auto
  qed
  have bad: "\<exists>e. fetch F env req
                      = (Inr \<lparr>status = 500,
                              payload = Json (JObj [(js ''error'',
                                  JStr (js ''failed to batch query: '' @ to_string e))])\<rparr>,
                         tr @ [Batch stmts])"
    if no: "\<not> list_all readable rs"
  proof -
    from collect_each_unreadable [OF no, of "[]"] obtain e where "collect_each rs [] = Inl e"
      by blast
    from post_batch_collect_failed [OF assms(7,8) this] f show ?thesis by auto
  qed
  from pos len_st tr stmt_i good bad show ?thesis by blast
qed

theorem C7_batch_order_witness:
  "fetch stub_hono stub_env batch_request
     = (Inr \<lparr>status = 200,
             payload = Json (JArr
               [JObj [(js ''results'', JArr [JStr (js ''SELECT 1'')]),
                      (js ''error'', JUndefined),
                      (js ''meta'', JObj [(js ''duration'', JNum (Finite 0))])],
                JObj [(js ''results'', JArr [JStr (js ''SELECT ?'')]),
                      (js ''error'', JUndefined),
                      (js ''meta'', JObj [(js ''duration'', JNum (Finite 0))])]])\<rparr>,
        [Prepare (js ''SELECT 1''), Prepare (js ''SELECT ?''),
         Bind (js ''SELECT ?'', []) [JNum (Finite 2)],
         Batch [(js ''SELECT 1'', []), (js ''SELECT ?'', [JNum (Finite 2)])]])
   \<and> (\<exists>e. fetch stub_hono (stub_env\<lparr>DB := Some null_db\<rparr>) batch_request
          = (Inr \<lparr>status = 500,
                  payload = Json (JObj [(js ''error'',
                      JStr (js ''failed to batch query: '' @ to_string e))])\<rparr>,
             [Prepare (js ''SELECT 1''), Prepare (js ''SELECT ?''),
              Bind (js ''SELECT ?'', []) [JNum (Finite 2)],
              Batch [(js ''SELECT 1'', []), (js ''SELECT ?'', [JNum (Finite 2)])]]))"
proof -
  let ?b = "\<lparr>batch = [\<lparr>queryText = js ''SELECT 1'', params = None\<rparr>,
                         \<lparr>queryText = js ''SELECT ?'', params = Some [JNum (Finite 2)]\<rparr>]\<rparr>"
  let ?stmts = "[(js ''SELECT 1'', []), (js ''SELECT ?'', [JNum (Finite 2)])]"
  let ?tr = "[Prepare (js ''SELECT 1''), Prepare (js ''SELECT ?''),
         Bind (js ''SELECT ?'', []) [JNum (Finite 2)]]"
  have cfg: "DB stub_env = Some stub_db" "APP_SECRET stub_env = Some stub_secret" "16 \<le> length stub_secret"
    by (simp_all add: stub_env_def stub_secret_def js_def)
  have cfg': "DB (stub_env\<lparr>DB := Some null_db\<rparr>) = Some null_db"
    "APP_SECRET (stub_env\<lparr>DB := Some null_db\<rparr>) = Some stub_secret"
    by (simp_all add: stub_env_def)
  have a: "route batch_request = QueryBatch" "authorization batch_request = Bearer stub_secret"
    by (simp_all add: batch_request_def)
  have v: "BatchQuery (json batch_request) = Some ?b"
    by (simp add: batch_request_def BatchQuery_def z_nonempty_def z_array_def PreparedQuery_def
        z_string_def params_schema field_def trim_def is_ws_def js_def)
  have p: "prepare_each stub_db (batch ?b) [] = (Inr ?stmts, ?tr)"
    by (simp add: statement_for_def and_then_def invoke_def ret_def stub_db_def)
  have p': "prepare_each null_db (batch ?b) [] = (Inr ?stmts, ?tr)"
    by (simp add: statement_for_def and_then_def invoke_def ret_def null_db_def stub_db_def)
  have r: "db_batch stub_db ?stmts = Inr (map stub_result ?stmts)"
    by (simp add: stub_db_def)
  have r': "db_batch null_db ?stmts = Inr [JNull, JNull]"
    by (simp add: null_db_def)
  have o: "list_all readable (map stub_result ?stmts)"
    by (simp add: stub_result_def readable_def)
  have o': "\<not> list_all readable [JNull, JNull]"
    by (simp add: readable_def)
  from C7_batch_order [OF cfg a v p r, of stub_hono] o
  obtain out where f: "fetch stub_hono stub_env batch_request
        = (Inr \<lparr>status = 200, payload = Json (JArr out)\<rparr>, ?tr @ [Batch ?stmts])"
    and len: "length out = length (map stub_result ?stmts)"
    and each: "\<forall>i < length (map stub_result ?stmts).
                  queryResp (map stub_result ?stmts ! i) = Inr (out ! i)"
    by blast
  from len obtain x y where xy: "out = [x, y]"
    by (cases out; cases "tl out") auto
  from each [rule_format, of 0] each [rule_format, of 1] xy
  have "queryResp (stub_result (js ''SELECT 1'', [])) = Inr x"
    "queryResp (stub_result (js ''SELECT ?'', [JNum (Finite 2)])) = Inr y"
    by simp_all
  then have "x = JObj [(js ''results'', JArr [JStr (js ''SELECT 1'')]),
                      (js ''error'', JUndefined),
                      (js ''meta'', JObj [(js ''duration'', JNum (Finite 0))])]"
    "y = JObj [(js ''results'', JArr [JStr (js ''SELECT ?'')]),
                      (js ''error'', JUndefined),
                      (js ''meta'', JObj [(js ''duration'', JNum (Finite 0))])]"
    by (simp_all add: queryResp_def read_prop_def field_def stub_result_def js_def)
  with f xy have 1: "fetch stub_hono stub_env batch_request
     = (Inr \<lparr>status = 200,
             payload = Json (JArr
               [JObj [(js ''results'', JArr [JStr (js ''SELECT 1'')]),
                      (js ''error'', JUndefined),
                      (js ''meta'', JObj [(js ''duration'', JNum (Finite 0))])],
                JObj [(js ''results'', JArr [JStr (js ''SELECT ?'')]),
                      (js ''error'', JUndefined),
                      (js ''meta'', JObj [(js ''duration'', JNum (Finite 0))])]])\<rparr>,
        ?tr @ [Batch ?stmts])"
    by simp
  from C7_batch_order [OF cfg' cfg(3) a v p' r', of stub_hono] o'
  have 2: "\<exists>e. fetch stub_hono (stub_env\<lparr>DB := Some null_db\<rparr>) batch_request
          = (Inr \<lparr>status = 500,
                  payload = Json (JObj [(js ''error'',
                      JStr (js ''failed to batch query: '' @ to_string e))])\<rparr>,
             ?tr @ [Batch ?stmts])"
    by blast
  from 1 2 show ?thesis by simp
qed

end
